theory Spec2Isabelle
  imports Complex_Main
begin

section \<open>flask-redis: the connection-string resolver and client initialisation\<close>

text \<open>
  The development embeds \<^verbatim>\<open>src/flask_redis/client.py\<close>. The methods of
  \<^verbatim>\<open>FlaskRedis\<close> are HOL functions of the same names; exceptions are values of the
  type \<open>error\<close> (results are \<open>error + 'a\<close>, \<open>Inl\<close> the exception); the mutable
  instance, the application object and the calls made to the client library are an explicit
  state.

  The Python runtime functions the code calls (\<^verbatim>\<open>str\<close> methods, \<^verbatim>\<open>int\<close>,
  \<^verbatim>\<open>float\<close>, \<^verbatim>\<open>urllib.parse.urlparse\<close>, \<^verbatim>\<open>urllib.parse.parse_qs\<close>) are modelled
  in the first subsections, after CPython 3.12. A \<^verbatim>\<open>str\<close> is a \<open>string\<close>; the model is
  exact for ASCII text. Code points from 128 on are ordinary characters for it (never white
  space, digits or letters), and a percent escape of such a byte is decoded to that single
  character, where CPython decodes UTF-8.
\<close>

subsection \<open>Exceptions\<close>

datatype error =
    ValueError
  | ImportError
  | IndexError
  | TypeError
  | OtherError string

subsection \<open>Python strings\<close>

text \<open>\<^verbatim>\<open>s.lower()\<close> on ASCII text.\<close>

definition lower_char :: "char \<Rightarrow> char" where
  "lower_char c =
     (let n = (of_char c :: nat) in if 65 \<le> n \<and> n \<le> 90 then char_of (n + 32) else c)"

definition lower :: "string \<Rightarrow> string" where
  "lower s = map lower_char s"

text \<open>
  \<^verbatim>\<open>s.split(sep)\<close> for a separator of one character: the pieces between the
  separators, in order; never the empty list.
\<close>

fun split :: "char \<Rightarrow> string \<Rightarrow> string list" where
  "split sep [] = [[]]"
| "split sep (x # xs) =
     (let r = split sep xs in if x = sep then [] # r else (x # hd r) # tl r)"

text \<open>
  \<^verbatim>\<open>s.split(sep, 1)\<close>: at most one split, at the first separator. The list has two
  elements when the separator occurs and one otherwise.
\<close>

definition split1 :: "char \<Rightarrow> string \<Rightarrow> string list" where
  "split1 sep s =
     (case dropWhile (\<lambda>x. x \<noteq> sep) s of
        [] \<Rightarrow> [s]
      | _ # r \<Rightarrow> [takeWhile (\<lambda>x. x \<noteq> sep) s, r])"

text \<open>\<^verbatim>\<open>s.lstrip(c)\<close> for one character.\<close>

definition lstrip :: "char \<Rightarrow> string \<Rightarrow> string" where
  "lstrip c s = dropWhile (\<lambda>x. x = c) s"

text \<open>\<^verbatim>\<open>xs[i]\<close> for \<open>i \<ge> 0\<close>: IndexError out of range.\<close>

fun index :: "'a list \<Rightarrow> nat \<Rightarrow> error + 'a" where
  "index [] i = Inl IndexError"
| "index (x # xs) 0 = Inr x"
| "index (x # xs) (Suc i) = index xs i"

subsection \<open>\<^verbatim>\<open>int(s)\<close> and \<^verbatim>\<open>float(s)\<close>\<close>

text \<open>
  White space as \<^verbatim>\<open>int\<close> and \<^verbatim>\<open>float\<close> strip it from both ends of ASCII text:
  tab, line feed, vertical tab, form feed, carriage return and the space.
\<close>

definition is_space :: "char \<Rightarrow> bool" where
  "is_space c = (let n = (of_char c :: nat) in (9 \<le> n \<and> n \<le> 13) \<or> n = 32)"

definition strip :: "string \<Rightarrow> string" where
  "strip s = rev (dropWhile is_space (rev (dropWhile is_space s)))"

definition is_digit :: "char \<Rightarrow> bool" where
  "is_digit c = (let n = (of_char c :: nat) in 48 \<le> n \<and> n \<le> 57)"

definition digit_val :: "char \<Rightarrow> nat" where
  "digit_val c = of_char c - 48"

text \<open>
  A digit part: decimal digits, with single underscores allowed between two digits. The
  accumulator is the value read so far.
\<close>

fun digits_from :: "nat \<Rightarrow> string \<Rightarrow> nat option" where
  "digits_from a [] = Some a"
| "digits_from a [c] = (if is_digit c then Some (10 * a + digit_val c) else None)"
| "digits_from a (c # d # cs) =
     (if is_digit c then digits_from (10 * a + digit_val c) (d # cs)
      else if c = CHR ''_'' \<and> is_digit d then digits_from a (d # cs)
      else None)"

definition digitpart :: "string \<Rightarrow> nat option" where
  "digitpart s =
     (case s of [] \<Rightarrow> None | c # _ \<Rightarrow> if is_digit c then digits_from 0 s else None)"

text \<open>An optional sign in front: whether it is a minus, and the rest.\<close>

definition take_sign :: "string \<Rightarrow> bool \<times> string" where
  "take_sign s =
     (case s of
        [] \<Rightarrow> (False, [])
      | c # r \<Rightarrow>
          if c = CHR ''-'' then (True, r) else if c = CHR ''+'' then (False, r) else (False, s))"

text \<open>
  The interpreter's default limit on the number of digits of a decimal string it converts
  to an integer (\<^verbatim>\<open>sys.get_int_max_str_digits()\<close>).
\<close>

definition max_str_digits :: nat where
  "max_str_digits = 4300"

text \<open>
  \<^verbatim>\<open>int(s)\<close> in base 10: white space stripped, an optional sign, a digit part of at
  most \<open>max_str_digits\<close> digits; anything else raises ValueError. Python integers are
  unbounded.
\<close>

definition py_int :: "string \<Rightarrow> error + int" where
  "py_int s =
     (let (neg, u) = take_sign (strip s)
      in case digitpart u of
           None \<Rightarrow> Inl ValueError
         | Some n \<Rightarrow>
             if max_str_digits < length (filter is_digit u) then Inl ValueError
             else Inr (if neg then - int n else int n))"

text \<open>
  A Python float, as far as the code is concerned: the value is parsed and handed on, never
  computed with. \<open>FloatOf q\<close> stands for the binary64 number nearest to the decimal
  \<open>q\<close> that was written.
\<close>

datatype pyfloat = FloatOf rat | FloatInf bool | FloatNaN

definition pow10 :: "int \<Rightarrow> rat" where
  "pow10 e = (if 0 \<le> e then 10 ^ nat e else 1 / 10 ^ nat (- e))"

text \<open>The mantissa \<^verbatim>\<open>[digits].digits\<close> or \<^verbatim>\<open>digits[.]\<close>.\<close>

definition mantissa :: "string \<Rightarrow> rat option" where
  "mantissa m =
     (case split1 CHR ''.'' m of
        [ip] \<Rightarrow> map_option of_nat (digitpart ip)
      | [ip, fp] \<Rightarrow>
          (if ip = [] \<and> fp = [] then None
           else case (if ip = [] then Some 0 else digitpart ip,
                      if fp = [] then Some 0 else digitpart fp) of
                  (Some i, Some f) \<Rightarrow>
                    Some (of_nat i + of_nat f * pow10 (- int (length (filter is_digit fp))))
                | _ \<Rightarrow> None)
      | _ \<Rightarrow> None)"

text \<open>The exponent after \<^verbatim>\<open>e\<close> or \<^verbatim>\<open>E\<close>: an optional sign and a digit part.\<close>

definition exponent :: "string \<Rightarrow> int option" where
  "exponent x =
     (let (neg, u) = take_sign x
      in map_option (\<lambda>n. if neg then - int n else int n) (digitpart u))"

definition floatnumber :: "string \<Rightarrow> rat option" where
  "floatnumber u =
     (case split1 CHR ''e'' (lower u) of
        [m] \<Rightarrow> mantissa m
      | [m, x] \<Rightarrow>
          (case (mantissa m, exponent x) of
             (Some q, Some e) \<Rightarrow> Some (q * pow10 e)
           | _ \<Rightarrow> None)
      | _ \<Rightarrow> None)"

text \<open>
  \<^verbatim>\<open>float(s)\<close>: white space stripped, an optional sign, then \<^verbatim>\<open>inf\<close>,
  \<^verbatim>\<open>infinity\<close> or \<^verbatim>\<open>nan\<close> in any case, or a decimal number; anything else raises
  ValueError.
\<close>

definition py_float :: "string \<Rightarrow> error + pyfloat" where
  "py_float s =
     (let (neg, u) = take_sign (strip s)
      in if lower u = ''inf'' \<or> lower u = ''infinity'' then Inr (FloatInf neg)
         else if lower u = ''nan'' then Inr FloatNaN
         else case floatnumber u of
                None \<Rightarrow> Inl ValueError
              | Some q \<Rightarrow> Inr (FloatOf (if neg then - q else q)))"

subsection \<open>\<^verbatim>\<open>urllib.parse.urlparse\<close>\<close>

text \<open>
  The six components of \<^verbatim>\<open>ParseResult\<close>. The code reads \<^verbatim>\<open>scheme\<close>,
  \<^verbatim>\<open>netloc\<close>, \<^verbatim>\<open>path\<close> and \<^verbatim>\<open>query\<close>, and the properties
  \<^verbatim>\<open>username\<close> and \<^verbatim>\<open>password\<close>, which are computed from \<^verbatim>\<open>netloc\<close>.
\<close>

record parsed_url =
  scheme :: string
  netloc :: string
  path :: string
  params :: string
  query :: string
  fragment :: string

definition scheme_chars :: string where
  "scheme_chars = ''abcdefghijklmnopqrstuvwxyzABCDEFGHIJKLMNOPQRSTUVWXYZ0123456789+-.''"

definition uses_params :: "string list" where
  "uses_params =
     ['''', ''ftp'', ''hdl'', ''prospero'', ''http'', ''imap'', ''https'', ''shttp'',
      ''rtsp'', ''rtsps'', ''rtspu'', ''sip'', ''sips'', ''mms'', ''sftp'', ''tel'']"

definition is_ascii_alpha :: "char \<Rightarrow> bool" where
  "is_ascii_alpha c =
     (let n = (of_char c :: nat) in (65 \<le> n \<and> n \<le> 90) \<or> (97 \<le> n \<and> n \<le> 122))"

text \<open>The characters \<^verbatim>\<open>urlsplit\<close> strips from the left: code points 0 to 32.\<close>

definition c0_control_or_space :: "char \<Rightarrow> bool" where
  "c0_control_or_space c = ((of_char c :: nat) \<le> 32)"

text \<open>The characters \<^verbatim>\<open>urlsplit\<close> removes wherever they stand: tab, CR, LF.\<close>

definition unsafe_url_byte :: "char \<Rightarrow> bool" where
  "unsafe_url_byte c = (let n = (of_char c :: nat) in n = 9 \<or> n = 13 \<or> n = 10)"

text \<open>
  The scheme: the text before the first \<^verbatim>\<open>:\<close>, when that text is not empty, starts
  with a letter and has scheme characters only; it is returned in lower case, with the text
  after the colon. Otherwise the scheme is empty.
\<close>

definition split_scheme :: "string \<Rightarrow> string \<times> string" where
  "split_scheme url =
     (let pre = takeWhile (\<lambda>c. c \<noteq> CHR '':'') url
      in if CHR '':'' \<in> set url \<and> pre \<noteq> [] \<and> is_ascii_alpha (hd pre)
            \<and> list_all (\<lambda>c. c \<in> set scheme_chars) pre
         then (lower pre, drop (Suc (length pre)) url)
         else ('''', url))"

text \<open>\<^verbatim>\<open>_splitnetloc(url, 2)\<close>: the authority runs to the first of \<^verbatim>\<open>/?#\<close>.\<close>

definition splitnetloc :: "string \<Rightarrow> string \<times> string" where
  "splitnetloc url =
     (let rest = drop 2 url
      in (takeWhile (\<lambda>c. c \<notin> set ''/?#'') rest, dropWhile (\<lambda>c. c \<notin> set ''/?#'') rest))"

text \<open>
  \<^verbatim>\<open>urlsplit\<close>. An authority with one kind of bracket only raises ValueError. An
  authority with both kinds is validated by the interpreter (the bracketed host must be
  an IP literal; the details differ between CPython releases): that validation is the
  parameter \<open>bracket_ok\<close>. For ASCII text \<^verbatim>\<open>_checknetloc\<close> does nothing.
\<close>

definition urlsplit :: "(string \<Rightarrow> bool) \<Rightarrow> string \<Rightarrow> error + parsed_url" where
  "urlsplit bracket_ok url0 =
     (let url = filter (\<lambda>c. \<not> unsafe_url_byte c) (dropWhile c0_control_or_space url0);
          (scheme, url) = split_scheme url;
          (netloc, url) = (if take 2 url = ''//'' then splitnetloc url else ('''', url))
      in if (CHR ''['' \<in> set netloc \<and> CHR '']'' \<notin> set netloc)
            \<or> (CHR '']'' \<in> set netloc \<and> CHR ''['' \<notin> set netloc)
         then Inl ValueError
         else if CHR ''['' \<in> set netloc \<and> CHR '']'' \<in> set netloc \<and> \<not> bracket_ok netloc
         then Inl ValueError
         else
           let (url, fragment) =
                 (if CHR ''#'' \<in> set url
                  then (takeWhile (\<lambda>c. c \<noteq> CHR ''#'') url,
                        drop 1 (dropWhile (\<lambda>c. c \<noteq> CHR ''#'') url))
                  else (url, ''''));
               (url, query) =
                 (if CHR ''?'' \<in> set url
                  then (takeWhile (\<lambda>c. c \<noteq> CHR ''?'') url,
                        drop 1 (dropWhile (\<lambda>c. c \<noteq> CHR ''?'') url))
                  else (url, ''''))
           in Inr \<lparr>scheme = scheme, netloc = netloc, path = url, params = '''',
                    query = query, fragment = fragment\<rparr>)"

text \<open>
  \<^verbatim>\<open>_splitparams\<close>, called when the path has a \<^verbatim>\<open>;\<close>: the split is at the first
  \<^verbatim>\<open>;\<close> of the last path segment, if that segment has one.
\<close>

definition splitparams :: "string \<Rightarrow> string \<times> string" where
  "splitparams url =
     (if CHR ''/'' \<in> set url
      then let seg = rev (takeWhile (\<lambda>c. c \<noteq> CHR ''/'') (rev url));
               pre = take (length url - length seg) url
           in if CHR '';'' \<in> set seg
              then (pre @ takeWhile (\<lambda>c. c \<noteq> CHR '';'') seg,
                    drop 1 (dropWhile (\<lambda>c. c \<noteq> CHR '';'') seg))
              else (url, '''')
      else (takeWhile (\<lambda>c. c \<noteq> CHR '';'') url,
            drop 1 (dropWhile (\<lambda>c. c \<noteq> CHR '';'') url)))"

definition urlparse :: "(string \<Rightarrow> bool) \<Rightarrow> string \<Rightarrow> error + parsed_url" where
  "urlparse bracket_ok url =
     (case urlsplit bracket_ok url of
        Inl e \<Rightarrow> Inl e
      | Inr r \<Rightarrow>
          if scheme r \<in> set uses_params \<and> CHR '';'' \<in> set (path r)
          then let (u, p) = splitparams (path r) in Inr (r\<lparr>path := u, params := p\<rparr>)
          else Inr r)"

text \<open>
  The properties \<^verbatim>\<open>username\<close> and \<^verbatim>\<open>password\<close>: the user information is the
  text before the last \<^verbatim>\<open>@\<close> of the authority; the user name is its part before the
  first \<^verbatim>\<open>:\<close>, the password the part after it. None stands for Python's
  \<^verbatim>\<open>None\<close>.
\<close>

definition userinfo :: "parsed_url \<Rightarrow> string option" where
  "userinfo p =
     (if CHR ''@'' \<in> set (netloc p)
      then Some (rev (drop 1 (dropWhile (\<lambda>c. c \<noteq> CHR ''@'') (rev (netloc p)))))
      else None)"

definition username :: "parsed_url \<Rightarrow> string option" where
  "username p = map_option (takeWhile (\<lambda>c. c \<noteq> CHR '':'')) (userinfo p)"

definition password :: "parsed_url \<Rightarrow> string option" where
  "password p =
     (case userinfo p of
        None \<Rightarrow> None
      | Some ui \<Rightarrow>
          if CHR '':'' \<in> set ui then Some (drop 1 (dropWhile (\<lambda>c. c \<noteq> CHR '':'') ui))
          else None)"

subsection \<open>\<^verbatim>\<open>urllib.parse.parse_qs\<close>\<close>

definition is_hex :: "char \<Rightarrow> bool" where
  "is_hex c = (c \<in> set ''0123456789ABCDEFabcdef'')"

definition hex_val :: "char \<Rightarrow> nat" where
  "hex_val c =
     (let n = (of_char c :: nat)
      in if n \<le> 57 then n - 48 else if n \<le> 70 then n - 55 else n - 87)"

text \<open>\<^verbatim>\<open>unquote\<close>: a \<^verbatim>\<open>%\<close> followed by two hexadecimal digits is the byte they write.\<close>

fun unquote :: "string \<Rightarrow> string" where
  "unquote (c # a # b # r) =
     (if c = CHR ''%'' \<and> is_hex a \<and> is_hex b
      then char_of (16 * hex_val a + hex_val b) # unquote r
      else c # unquote (a # b # r))"
| "unquote s = s"

definition unquote_plus :: "string \<Rightarrow> string" where
  "unquote_plus s = unquote (map (\<lambda>c. if c = CHR ''+'' then CHR '' '' else c) s)"

text \<open>
  \<^verbatim>\<open>parse_qsl\<close> with its defaults: the fields are separated by \<^verbatim>\<open>&\<close>; a field is
  split at its first \<^verbatim>\<open>=\<close>; fields with an empty value (or no \<^verbatim>\<open>=\<close>) are dropped.
\<close>

fun parse_fields :: "string list \<Rightarrow> (string \<times> string) list" where
  "parse_fields [] = []"
| "parse_fields (name_value # rest) =
     (let name = takeWhile (\<lambda>c. c \<noteq> CHR ''='') name_value;
          val = drop 1 (dropWhile (\<lambda>c. c \<noteq> CHR ''='') name_value)
      in if name_value \<noteq> [] \<and> val \<noteq> []
         then (unquote_plus name, unquote_plus val) # parse_fields rest
         else parse_fields rest)"

definition parse_qsl :: "string \<Rightarrow> (string \<times> string) list" where
  "parse_qsl qs = (if qs = [] then [] else parse_fields (split CHR ''&'' qs))"

text \<open>
  \<^verbatim>\<open>parse_qs\<close>: the dictionary from each name to the list of its values, in the order
  of the fields.
\<close>

fun collect ::
  "(string \<times> string) list \<Rightarrow> (string \<rightharpoonup> string list) \<Rightarrow> (string \<rightharpoonup> string list)" where
  "collect [] parsed_result = parsed_result"
| "collect ((name, val) # pairs) parsed_result =
     collect pairs
       (case parsed_result name of
          Some vs \<Rightarrow> parsed_result(name \<mapsto> vs @ [val])
        | None \<Rightarrow> parsed_result(name \<mapsto> [val]))"

definition parse_qs :: "string \<Rightarrow> (string \<rightharpoonup> string list)" where
  "parse_qs qs = collect (parse_qsl qs) Map.empty"

subsection \<open>The parsers of \<^verbatim>\<open>FlaskRedis\<close>\<close>

text \<open>
  The methods keep their names without the leading underscore. \<^verbatim>\<open>self\<close> is left out
  where a method does not read it. Three parameters are renamed, since their names are
  those of the components of a parsed URL: \<open>url_scheme\<close> for \<^verbatim>\<open>scheme\<close>,
  \<open>user\<close> and \<open>pass\<close> for \<^verbatim>\<open>username\<close> and \<^verbatim>\<open>password\<close>.
\<close>

text \<open>\<^verbatim>\<open>ssl.CERT_NONE\<close>, \<^verbatim>\<open>ssl.CERT_OPTIONAL\<close>, \<^verbatim>\<open>ssl.CERT_REQUIRED\<close>.\<close>

datatype cert_reqs = CERT_NONE | CERT_OPTIONAL | CERT_REQUIRED

text \<open>The values the dictionary \<^verbatim>\<open>ssl_params\<close> holds.\<close>

datatype ssl_value = PyBool bool | PyCert cert_reqs | PyStr string

type_synonym ssl_params = "string \<rightharpoonup> ssl_value"
type_synonym auth_params = "string \<rightharpoonup> string"
type_synonym query_params = "string \<rightharpoonup> string list"

definition extract_credentials :: "parsed_url \<Rightarrow> string option \<times> string option" where
  "extract_credentials parsed_url = (username parsed_url, password parsed_url)"

text \<open>
  The loop of \<^verbatim>\<open>_parse_hosts\<close> over the tokens, \<open>hosts\<close> the list built so far.
  Unpacking \<^verbatim>\<open>host, port = host_port.split(":", 1)\<close> raises ValueError unless the
  list has two elements.
\<close>

fun parse_hosts_loop ::
  "string list \<Rightarrow> (string \<times> int) list \<Rightarrow> error + (string \<times> int) list" where
  "parse_hosts_loop [] hosts = Inr hosts"
| "parse_hosts_loop (host_port # rest) hosts =
     (if CHR '':'' \<in> set host_port
      then (case split1 CHR '':'' host_port of
              [host, port] \<Rightarrow>
                (case py_int port of
                   Inl e \<Rightarrow> Inl e
                 | Inr port \<Rightarrow> parse_hosts_loop rest (hosts @ [(host, port)]))
            | _ \<Rightarrow> Inl ValueError)
      else parse_hosts_loop rest (hosts @ [(host_port, 26379)]))"

definition parse_hosts :: "parsed_url \<Rightarrow> error + (string \<times> int) list" where
  "parse_hosts parsed_url =
     (let netloc = netloc parsed_url
      in case (if CHR ''@'' \<in> set netloc then index (split1 CHR ''@'' netloc) 1
               else Inr netloc) of
           Inl e \<Rightarrow> Inl e
         | Inr hosts_part \<Rightarrow> parse_hosts_loop (split CHR '','' hosts_part) [])"

definition parse_master_and_db :: "parsed_url \<Rightarrow> error + string \<times> int" where
  "parse_master_and_db parsed_url =
     (let path = lstrip CHR ''/'' (path parsed_url)
      in if CHR ''/'' \<in> set path
         then (case split1 CHR ''/'' path of
                 [master_name, db_part] \<Rightarrow>
                   (case py_int db_part of
                      Inl e \<Rightarrow> Inl e
                    | Inr db \<Rightarrow> Inr (master_name, db))
               | _ \<Rightarrow> Inl ValueError)
         else Inr (path, 0))"

text \<open>
  \<^verbatim>\<open>query_params.get(key, [None])[0]\<close>: the first value of the key, \<open>None\<close> when the
  key is absent, IndexError when its list is empty.
\<close>

definition first_or_none :: "query_params \<Rightarrow> string \<Rightarrow> error + string option" where
  "first_or_none query_params key =
     (case query_params key of
        None \<Rightarrow> Inr None
      | Some vs \<Rightarrow> (case index vs 0 of Inl e \<Rightarrow> Inl e | Inr v \<Rightarrow> Inr (Some v)))"

definition parse_socket_timeout :: "query_params \<Rightarrow> error + pyfloat option" where
  "parse_socket_timeout query_params =
     (case first_or_none query_params ''socket_timeout'' of
        Inl e \<Rightarrow> Inl e
      | Inr None \<Rightarrow> Inr None
      | Inr (Some socket_timeout) \<Rightarrow>
          (case py_float socket_timeout of Inl e \<Rightarrow> Inl e | Inr t \<Rightarrow> Inr (Some t)))"

definition parse_ssl_enabled :: "string \<Rightarrow> query_params \<Rightarrow> error + bool" where
  "parse_ssl_enabled url_scheme query_params =
     (if url_scheme = ''rediss+sentinel'' then Inr True
      else case (case query_params ''ssl'' of None \<Rightarrow> Inr ''False'' | Some vs \<Rightarrow> index vs 0) of
             Inl e \<Rightarrow> Inl e
           | Inr v \<Rightarrow> (let ssl_param = lower v in Inr (ssl_param = ''true'')))"

definition parse_ssl_cert_reqs :: "query_params \<Rightarrow> error + cert_reqs option" where
  "parse_ssl_cert_reqs query_params =
     (case first_or_none query_params ''ssl_cert_reqs'' of
        Inl e \<Rightarrow> Inl e
      | Inr None \<Rightarrow> Inr None
      | Inr (Some ssl_cert_reqs) \<Rightarrow>
          if ssl_cert_reqs \<noteq> []
          then Inr (map_of [(''required'', CERT_REQUIRED), (''optional'', CERT_OPTIONAL),
                            (''none'', CERT_NONE)] (lower ssl_cert_reqs))
          else Inr None)"

text \<open>\<^verbatim>\<open>if v: d[key] = v\<close> for an optional string: neither None nor empty.\<close>

definition set_if_truthy :: "string \<Rightarrow> string option \<Rightarrow> ssl_params \<Rightarrow> ssl_params" where
  "set_if_truthy key v d =
     (case v of None \<Rightarrow> d | Some s \<Rightarrow> if s \<noteq> [] then d(key \<mapsto> PyStr s) else d)"

definition parse_ssl_params :: "query_params \<Rightarrow> bool \<Rightarrow> error + ssl_params" where
  "parse_ssl_params query_params ssl_enabled =
     (if ssl_enabled
      then
        case parse_ssl_cert_reqs query_params of Inl e \<Rightarrow> Inl e | Inr ssl_cert_reqs \<Rightarrow>
       (case first_or_none query_params ''ssl_keyfile'' of Inl e \<Rightarrow> Inl e | Inr ssl_keyfile \<Rightarrow>
       (case first_or_none query_params ''ssl_certfile'' of Inl e \<Rightarrow> Inl e | Inr ssl_certfile \<Rightarrow>
       (case first_or_none query_params ''ssl_ca_certs'' of Inl e \<Rightarrow> Inl e | Inr ssl_ca_certs \<Rightarrow>
        let ssl_params = [''ssl'' \<mapsto> PyBool True];
            ssl_params = (case ssl_cert_reqs of
                            None \<Rightarrow> ssl_params
                          | Some c \<Rightarrow> ssl_params(''ssl_cert_reqs'' \<mapsto> PyCert c));
            ssl_params = set_if_truthy ''ssl_keyfile'' ssl_keyfile ssl_params;
            ssl_params = set_if_truthy ''ssl_certfile'' ssl_certfile ssl_params;
            ssl_params = set_if_truthy ''ssl_ca_certs'' ssl_ca_certs ssl_params
        in Inr ssl_params)))
      else Inr Map.empty)"

definition parse_auth_params :: "string option \<Rightarrow> string option \<Rightarrow> auth_params" where
  "parse_auth_params user pass =
     (let auth_params = Map.empty;
          auth_params = (case user of
                           None \<Rightarrow> auth_params
                         | Some u \<Rightarrow> if u \<noteq> [] then auth_params(''username'' \<mapsto> u)
                                     else auth_params);
          auth_params = (case pass of
                           None \<Rightarrow> auth_params
                         | Some pw \<Rightarrow> if pw \<noteq> [] then auth_params(''password'' \<mapsto> pw)
                                      else auth_params)
      in auth_params)"

text \<open>The two dictionaries \<^verbatim>\<open>_parse_sentinel_parameters\<close> returns, by their keys.\<close>

record sentinel_kwargs =
  sentinel_hosts :: "(string \<times> int) list"
  sentinel_socket_timeout :: "pyfloat option"
  sentinel_ssl_params :: ssl_params
  sentinel_auth_params :: auth_params
  sentinel_master_name :: string

record client_kwargs =
  client_db :: int
  client_socket_timeout :: "pyfloat option"
  client_ssl_params :: ssl_params
  client_auth_params :: auth_params

definition parse_sentinel_parameters ::
  "parsed_url \<Rightarrow> error + sentinel_kwargs \<times> client_kwargs" where
  "parse_sentinel_parameters parsed_url =
     (let (username, password) = extract_credentials parsed_url
      in
        case parse_hosts parsed_url of Inl e \<Rightarrow> Inl e | Inr hosts \<Rightarrow>
       (case parse_master_and_db parsed_url of Inl e \<Rightarrow> Inl e | Inr (master_name, db) \<Rightarrow>
        let query_params = parse_qs (query parsed_url)
        in
         (case parse_socket_timeout query_params of Inl e \<Rightarrow> Inl e | Inr socket_timeout \<Rightarrow>
         (case parse_ssl_enabled (scheme parsed_url) query_params of
            Inl e \<Rightarrow> Inl e | Inr ssl_enabled \<Rightarrow>
         (case parse_ssl_params query_params ssl_enabled of Inl e \<Rightarrow> Inl e | Inr ssl_params \<Rightarrow>
          let auth_params = parse_auth_params username password
          in Inr (\<lparr>sentinel_hosts = hosts, sentinel_socket_timeout = socket_timeout,
                    sentinel_ssl_params = ssl_params, sentinel_auth_params = auth_params,
                    sentinel_master_name = master_name\<rparr>,
                  \<lparr>client_db = db, client_socket_timeout = socket_timeout,
                    client_ssl_params = ssl_params, client_auth_params = auth_params\<rparr>))))))"

subsection \<open>The instance, the application and the client library\<close>

text \<open>
  Extra keyword arguments (\<^verbatim>\<open>**kwargs\<close>) are a dictionary from names to values of any
  type \<open>'v\<close>.
\<close>

type_synonym 'v kwargs = "string \<rightharpoonup> 'v"

text \<open>
  The calls the code makes to the client library, with their arguments in the order of
  the source: \<^verbatim>\<open>provider_class.from_url(redis_url, decode_responses=..., **kw)\<close>,
  \<^verbatim>\<open>Sentinel(hosts, socket_timeout=..., **ssl, **auth, **kw)\<close> and
  \<^verbatim>\<open>sentinel.master_for(master_name, db=..., socket_timeout=...,
  decode_responses=..., **ssl, **auth, **kw)\<close>.
\<close>

datatype 'v call =
    FromUrl string bool "'v kwargs"
  | NewSentinel "(string \<times> int) list" "pyfloat option" ssl_params auth_params "'v kwargs"
  | MasterFor string int "pyfloat option" bool ssl_params auth_params "'v kwargs"

text \<open>
  The fields of a \<^verbatim>\<open>FlaskRedis\<close> instance. \<open>redis_client\<close> is
  \<^verbatim>\<open>_redis_client\<close> (\<open>None\<close> for Python's \<^verbatim>\<open>None\<close>), a client handle of any
  type \<open>'c\<close>. \<open>provider_class\<close> is the class's \<^verbatim>\<open>from_url\<close>, the only attribute
  of it the code uses: it stands for the whole call expression, so binding the arguments
  (which raises TypeError when a keyword is given twice) is part of it, and any exception
  is a possible result. \<open>self_id\<close> is the identity of the object, which is what the
  extension registry holds.
\<close>

record ('c, 'v) flask_redis =
  self_id :: nat
  redis_client :: "'c option"
  provider_class :: "string \<Rightarrow> bool \<Rightarrow> 'v kwargs \<Rightarrow> error + 'c"
  config_prefix :: string
  decode_responses :: bool
  provider_kwargs :: "'v kwargs"

text \<open>
  The application object: its configuration, and its attribute \<^verbatim>\<open>extensions\<close>
  (\<open>None\<close> when the object has no such attribute).
\<close>

record flask_app =
  config :: "string \<rightharpoonup> string"
  extensions :: "(string \<rightharpoonup> nat) option"

text \<open>
  The module-level name \<^verbatim>\<open>Sentinel\<close> (\<open>None\<close> when the import failed), the method
  \<^verbatim>\<open>master_for\<close> of the object it constructs (of any type \<open>'s\<close>), and the
  interpreter's validation of bracketed hosts (see \<open>urlsplit\<close>). As for
  \<open>provider_class\<close>, each function stands for the whole call expression.
\<close>

record ('c, 's, 'v) module_env =
  bracket_ok :: "string \<Rightarrow> bool"
  Sentinel ::
    "((string \<times> int) list \<Rightarrow> pyfloat option \<Rightarrow> ssl_params \<Rightarrow> auth_params \<Rightarrow> 'v kwargs
       \<Rightarrow> error + 's) option"
  master_for ::
    "'s \<Rightarrow> string \<Rightarrow> int \<Rightarrow> pyfloat option \<Rightarrow> bool \<Rightarrow> ssl_params \<Rightarrow> auth_params
       \<Rightarrow> 'v kwargs \<Rightarrow> error + 'c"

text \<open>
  What a method call can change: the instance, the application, and the log of the calls
  made to the client library (the newest last).
\<close>

record ('c, 'v) state =
  self :: "('c, 'v) flask_redis"
  app :: flask_app
  calls :: "'v call list"

subsection \<open>\<^verbatim>\<open>init_app\<close> and the two construction paths\<close>

text \<open>A method returns \<open>Inr ()\<close> or raises, and leaves a state in both cases.\<close>

definition init_standard_client ::
  "('c, 'v) state \<Rightarrow> string \<Rightarrow> (error + unit) \<times> ('c, 'v) state" where
  "init_standard_client st redis_url =
     (let this = self st;
          st = st\<lparr>calls := calls st @
                 [FromUrl redis_url (decode_responses this) (provider_kwargs this)]\<rparr>
      in case provider_class this redis_url (decode_responses this) (provider_kwargs this) of
           Inl e \<Rightarrow> (Inl e, st)
         | Inr c \<Rightarrow> (Inr (), st\<lparr>self := this\<lparr>redis_client := Some c\<rparr>\<rparr>))"

text \<open>
  \<^verbatim>\<open>_init_sentinel_client\<close>. Calling \<^verbatim>\<open>Sentinel\<close> when it is \<^verbatim>\<open>None\<close> raises
  TypeError (\<^verbatim>\<open>init_app\<close> never gets there).
\<close>

definition init_sentinel_client ::
  "('c, 's, 'v) module_env \<Rightarrow> ('c, 'v) state \<Rightarrow> parsed_url
     \<Rightarrow> (error + unit) \<times> ('c, 'v) state" where
  "init_sentinel_client env st parsed_url =
     (let this = self st
      in case parse_sentinel_parameters parsed_url of
           Inl e \<Rightarrow> (Inl e, st)
         | Inr (sentinel_kwargs, client_kwargs) \<Rightarrow>
             (case Sentinel env of
                None \<Rightarrow> (Inl TypeError, st)
              | Some new_sentinel \<Rightarrow>
                  let st = st\<lparr>calls := calls st @
                         [NewSentinel (sentinel_hosts sentinel_kwargs)
                            (sentinel_socket_timeout sentinel_kwargs)
                            (sentinel_ssl_params sentinel_kwargs)
                            (sentinel_auth_params sentinel_kwargs)
                            (provider_kwargs this)]\<rparr>
                  in (case new_sentinel (sentinel_hosts sentinel_kwargs)
                            (sentinel_socket_timeout sentinel_kwargs)
                            (sentinel_ssl_params sentinel_kwargs)
                            (sentinel_auth_params sentinel_kwargs)
                            (provider_kwargs this) of
                       Inl e \<Rightarrow> (Inl e, st)
                     | Inr sentinel \<Rightarrow>
                         let st = st\<lparr>calls := calls st @
                                [MasterFor (sentinel_master_name sentinel_kwargs)
                                   (client_db client_kwargs)
                                   (client_socket_timeout client_kwargs)
                                   (decode_responses this)
                                   (client_ssl_params client_kwargs)
                                   (client_auth_params client_kwargs)
                                   (provider_kwargs this)]\<rparr>
                         in (case master_for env sentinel
                                   (sentinel_master_name sentinel_kwargs)
                                   (client_db client_kwargs)
                                   (client_socket_timeout client_kwargs)
                                   (decode_responses this)
                                   (client_ssl_params client_kwargs)
                                   (client_auth_params client_kwargs)
                                   (provider_kwargs this) of
                              Inl e \<Rightarrow> (Inl e, st)
                            | Inr c \<Rightarrow>
                                (Inr (), st\<lparr>self := this\<lparr>redis_client := Some c\<rparr>\<rparr>)))))"

text \<open>
  \<^verbatim>\<open>app.extensions[self.config_prefix.lower()] = self\<close>, after creating the
  attribute when it is missing.
\<close>

definition register_extension :: "('c, 'v) state \<Rightarrow> ('c, 'v) state" where
  "register_extension st =
     (let this = self st;
          registry = (case extensions (app st) of None \<Rightarrow> Map.empty | Some r \<Rightarrow> r)
      in st\<lparr>app := (app st)\<lparr>extensions :=
              Some (registry(lower (config_prefix this) \<mapsto> self_id this))\<rparr>\<rparr>)"

text \<open>
  \<^verbatim>\<open>init_app(app, **kwargs)\<close>. The update of \<^verbatim>\<open>provider_kwargs\<close> comes first and
  stays when a later step raises.
\<close>

definition init_app ::
  "('c, 's, 'v) module_env \<Rightarrow> ('c, 'v) state \<Rightarrow> 'v kwargs
     \<Rightarrow> (error + unit) \<times> ('c, 'v) state" where
  "init_app env st kwargs =
     (let redis_url = (case config (app st) (config_prefix (self st) @ ''_URL'') of
                         None \<Rightarrow> ''redis://localhost:6379/0''
                       | Some u \<Rightarrow> u);
          st = st\<lparr>self := (self st)\<lparr>provider_kwargs := provider_kwargs (self st) ++ kwargs\<rparr>\<rparr>
      in case urlparse (bracket_ok env) redis_url of
           Inl e \<Rightarrow> (Inl e, st)
         | Inr parsed_url \<Rightarrow>
             (case (if scheme parsed_url \<in> set [''redis+sentinel'', ''rediss+sentinel'']
                    then (case Sentinel env of
                            None \<Rightarrow> (Inl ImportError, st)
                          | Some _ \<Rightarrow> init_sentinel_client env st parsed_url)
                    else init_standard_client st redis_url) of
                (Inl e, st) \<Rightarrow> (Inl e, st)
              | (Inr _, st) \<Rightarrow> (Inr (), register_extension st)))"

subsection \<open>Resolution\<close>

text \<open>
  The specification's \<^verbatim>\<open>resolve\<close> is the part of \<^verbatim>\<open>init_app\<close> that turns the
  connection string into parameters, before any call to the client library: parsing the
  URL, the test of the scheme, and \<^verbatim>\<open>_parse_sentinel_parameters\<close>. A Direct target
  carries the string handed to \<^verbatim>\<open>_init_standard_client\<close>; a Discovery target the two
  dictionaries.
\<close>

datatype connection_target =
    Direct string
  | Discovery sentinel_kwargs client_kwargs

definition resolve :: "(string \<Rightarrow> bool) \<Rightarrow> string \<Rightarrow> error + connection_target" where
  "resolve ok raw_url =
     (case urlparse ok raw_url of
        Inl e \<Rightarrow> Inl e
      | Inr parsed_url \<Rightarrow>
          if scheme parsed_url \<in> set [''redis+sentinel'', ''rediss+sentinel'']
          then (case parse_sentinel_parameters parsed_url of
                  Inl e \<Rightarrow> Inl e
                | Inr (sentinel_kwargs, client_kwargs) \<Rightarrow>
                    Inr (Discovery sentinel_kwargs client_kwargs))
          else Inr (Direct raw_url))"

text \<open>
  The validation of bracketed hosts that accepts every authority. The examples use it;
  none of their URLs has a bracket.
\<close>

definition any_host :: "string \<Rightarrow> bool" where
  "any_host s = True"

text \<open>The URL \<^verbatim>\<open>init_app\<close> reads from the configuration, with its default.\<close>

definition configured_url :: "('c, 'v) state \<Rightarrow> string" where
  "configured_url st =
     (case config (app st) (config_prefix (self st) @ ''_URL'') of
        None \<Rightarrow> ''redis://localhost:6379/0''
      | Some u \<Rightarrow> u)"

subsection \<open>The coordinator hosts, as the specification words them\<close>

text \<open>
  The specification: strip any credentials, delimited by \<^verbatim>\<open>@\<close>, from the authority;
  split on \<^verbatim>\<open>,\<close>; for each token \<^verbatim>\<open>host[:port]\<close> parse the port as an integer if
  present, else default to 26379; keep the order. These definitions follow that wording
  (a map over the tokens), not the loop of the code.
\<close>

definition text_after :: "char \<Rightarrow> string \<Rightarrow> string" where
  "text_after c s = drop 1 (dropWhile (\<lambda>x. x \<noteq> c) s)"

definition text_before :: "char \<Rightarrow> string \<Rightarrow> string" where
  "text_before c s = takeWhile (\<lambda>x. x \<noteq> c) s"

definition strip_credentials :: "string \<Rightarrow> string" where
  "strip_credentials authority =
     (if CHR ''@'' \<in> set authority then text_after CHR ''@'' authority else authority)"

definition host_tokens :: "parsed_url \<Rightarrow> string list" where
  "host_tokens p = split CHR '','' (strip_credentials (netloc p))"

definition spec_host_token :: "string \<Rightarrow> error + string \<times> int" where
  "spec_host_token tok =
     (if CHR '':'' \<in> set tok
      then (case py_int (text_after CHR '':'' tok) of
              Inl e \<Rightarrow> Inl e
            | Inr port \<Rightarrow> Inr (text_before CHR '':'' tok, port))
      else Inr (tok, 26379))"

text \<open>All the results in order, or the first error.\<close>

fun all_or_first_error :: "(error + 'a) list \<Rightarrow> error + 'a list" where
  "all_or_first_error [] = Inr []"
| "all_or_first_error (Inl e # rs) = Inl e"
| "all_or_first_error (Inr x # rs) =
     (case all_or_first_error rs of Inl e \<Rightarrow> Inl e | Inr xs \<Rightarrow> Inr (x # xs))"

definition spec_coordinator_hosts :: "parsed_url \<Rightarrow> error + (string \<times> int) list" where
  "spec_coordinator_hosts p = all_or_first_error (map spec_host_token (host_tokens p))"

subsection \<open>Malformed numeric fields\<close>





subsection \<open>A small environment for examples\<close>

text \<open>
  A client library whose handles are numbers: \<^verbatim>\<open>from_url\<close> returns the handle 1,
  \<^verbatim>\<open>Sentinel\<close> the object 2, \<^verbatim>\<open>master_for\<close> the handle 3. There are no extra
  keyword arguments (their values are of type \<open>unit\<close>).
\<close>

definition example_from_url :: "string \<Rightarrow> bool \<Rightarrow> unit kwargs \<Rightarrow> error + nat" where
  "example_from_url url decode kw = Inr 1"

definition example_sentinel ::
  "(string \<times> int) list \<Rightarrow> pyfloat option \<Rightarrow> ssl_params \<Rightarrow> auth_params \<Rightarrow> unit kwargs
     \<Rightarrow> error + nat" where
  "example_sentinel hosts timeout ssl auth kw = Inr 2"

definition example_master_for ::
  "nat \<Rightarrow> string \<Rightarrow> int \<Rightarrow> pyfloat option \<Rightarrow> bool \<Rightarrow> ssl_params \<Rightarrow> auth_params
     \<Rightarrow> unit kwargs \<Rightarrow> error + nat" where
  "example_master_for s name db timeout decode ssl auth kw = Inr 3"

definition env_with_sentinel :: "(nat, nat, unit) module_env" where
  "env_with_sentinel =
     \<lparr>bracket_ok = any_host, Sentinel = Some example_sentinel,
      master_for = example_master_for\<rparr>"

definition env_without_sentinel :: "(nat, nat, unit) module_env" where
  "env_without_sentinel =
     \<lparr>bracket_ok = any_host, Sentinel = None, master_for = example_master_for\<rparr>"

text \<open>
  A fresh instance (\<^verbatim>\<open>FlaskRedis()\<close>: no client yet, prefix \<^verbatim>\<open>REDIS\<close>) and an
  application whose configuration holds the given URL and which has no extension
  registry yet.
\<close>

definition fresh_instance :: "(nat, unit) flask_redis" where
  "fresh_instance =
     \<lparr>self_id = 7, redis_client = None, provider_class = example_from_url,
      config_prefix = ''REDIS'', decode_responses = True, provider_kwargs = Map.empty\<rparr>"

definition state_with_url :: "string \<Rightarrow> (nat, unit) state" where
  "state_with_url url =
     \<lparr>self = fresh_instance,
      app = \<lparr>config = [''REDIS_URL'' \<mapsto> url], extensions = None\<rparr>,
      calls = []\<rparr>"

section \<open>Properties of the model\<close>

subsection \<open>Facts about the string functions and the number parsers\<close>

lemma split1_in:
  "c \<in> set s \<Longrightarrow> split1 c s = [text_before c s, text_after c s]"
  by (cases "dropWhile (\<lambda>x. x \<noteq> c) s")
     (auto simp: split1_def text_before_def text_after_def)

lemma split1_notin:
  assumes "c \<notin> set s"
  shows "split1 c s = [s]"
proof -
  from assms have "dropWhile (\<lambda>x. x \<noteq> c) s = []" by auto
  then show ?thesis unfolding split1_def by (simp only: list.case)
qed

lemma split_not_Nil: "split c s \<noteq> []"
  by (induction s) (simp_all add: Let_def)





subsection \<open>URLs without brackets\<close>

text \<open>
  The authority is made of characters of the URL, so for a URL without brackets the
  interpreter's validation of bracketed hosts is never consulted: parsing and resolution
  are the same for every such validation.
\<close>

lemma netloc_chars:
  "set (fst (if take 2 r = ''//'' then splitnetloc r else ('''', r))) \<subseteq> set r"
  by (auto simp: splitnetloc_def Let_def dest: set_takeWhileD in_set_dropD)

lemma split_scheme_chars: "set (snd (split_scheme u)) \<subseteq> set u"
  by (auto simp: split_scheme_def Let_def dest: in_set_dropD)

lemma cleaned_chars:
  "set (filter (\<lambda>c. \<not> unsafe_url_byte c) (dropWhile c0_control_or_space url)) \<subseteq> set url"
  by (auto dest: set_dropWhileD)

lemma urlsplit_without_brackets:
  assumes "CHR ''['' \<notin> set url" and "CHR '']'' \<notin> set url"
  shows "urlsplit ok url = urlsplit any_host url"
proof -
  let ?u = "filter (\<lambda>c. \<not> unsafe_url_byte c) (dropWhile c0_control_or_space url)"
  let ?r = "snd (split_scheme ?u)"
  let ?n = "fst (if take 2 ?r = ''//'' then splitnetloc ?r else ('''', ?r))"
  have "set ?n \<subseteq> set url"
    using netloc_chars [of ?r] split_scheme_chars [of ?u] cleaned_chars [of url] by blast
  with assms have "CHR ''['' \<notin> set ?n" and "CHR '']'' \<notin> set ?n" by blast+
  then show ?thesis
    by (simp add: urlsplit_def Let_def split_beta)
qed

lemma urlparse_without_brackets:
  "CHR ''['' \<notin> set url \<Longrightarrow> CHR '']'' \<notin> set url
     \<Longrightarrow> urlparse ok url = urlparse any_host url"
  by (simp add: urlparse_def urlsplit_without_brackets [of url ok])

lemma resolve_without_brackets:
  "CHR ''['' \<notin> set url \<Longrightarrow> CHR '']'' \<notin> set url
     \<Longrightarrow> resolve ok url = resolve any_host url"
  by (simp add: resolve_def urlparse_without_brackets [of url ok])

subsection \<open>The host loop computes what the specification words\<close>

lemma parse_hosts_token:
  "parse_hosts_loop (tok # rest) hosts =
     (case spec_host_token tok of
        Inl e \<Rightarrow> Inl e
      | Inr h \<Rightarrow> parse_hosts_loop rest (hosts @ [h]))"
  by (simp add: spec_host_token_def split1_in split: sum.splits)

lemma parse_hosts_loop_spec:
  "parse_hosts_loop toks hosts =
     (case all_or_first_error (map spec_host_token toks) of
        Inl e \<Rightarrow> Inl e
      | Inr hs \<Rightarrow> Inr (hosts @ hs))"
proof (induction toks arbitrary: hosts)
  case Nil
  show ?case by simp
next
  case (Cons tok rest)
  show ?case
  proof (cases "spec_host_token tok")
    case (Inl e)
    then show ?thesis by (simp only: parse_hosts_token) simp
  next
    case (Inr h)
    then show ?thesis
      by (simp only: parse_hosts_token) (simp add: Cons.IH split: sum.splits)
  qed
qed

lemma hosts_part_spec:
  "(if CHR ''@'' \<in> set n then index (split1 CHR ''@'' n) 1 else Inr n)
     = Inr (strip_credentials n)"
  by (simp add: strip_credentials_def split1_in)

lemma parse_hosts_spec: "parse_hosts p = spec_coordinator_hosts p"
  by (simp add: parse_hosts_def Let_def hosts_part_spec parse_hosts_loop_spec
      spec_coordinator_hosts_def host_tokens_def split: sum.splits)

lemma all_or_first_error_length:
  "all_or_first_error rs = Inr xs \<Longrightarrow> length xs = length rs"
  by (induction rs arbitrary: xs rule: all_or_first_error.induct)
     (auto split: sum.splits)

lemma all_or_first_error_nth:
  "all_or_first_error rs = Inr xs \<Longrightarrow> i < length rs \<Longrightarrow> rs ! i = Inr (xs ! i)"
proof (induction rs arbitrary: xs i rule: all_or_first_error.induct)
  case 1
  then show ?case by simp
next
  case (2 e rs)
  then show ?case by simp
next
  case (3 x rs)
  then show ?case by (cases i) (auto split: sum.splits)
qed

subsection \<open>The value lists of \<^verbatim>\<open>parse_qs\<close> are never empty\<close>





subsection \<open>When the parsers raise\<close>







lemma parse_master_and_db_eq:
  "parse_master_and_db p =
     (if CHR ''/'' \<in> set (lstrip CHR ''/'' (path p))
      then (case py_int (text_after CHR ''/'' (lstrip CHR ''/'' (path p))) of
              Inl e \<Rightarrow> Inl e
            | Inr db \<Rightarrow> Inr (text_before CHR ''/'' (lstrip CHR ''/'' (path p)), db))
      else Inr (lstrip CHR ''/'' (path p), 0))"
  by (simp add: parse_master_and_db_def Let_def split1_in)










subsection \<open>\<^verbatim>\<open>init_app\<close>, case by case\<close>

lemma init_app_direct:
  assumes "urlparse (bracket_ok env) (configured_url st) = Inr p"
    and "scheme p \<notin> set [''redis+sentinel'', ''rediss+sentinel'']"
  shows "init_app env st kwargs =
     (case init_standard_client
             (st\<lparr>self := (self st)\<lparr>provider_kwargs := provider_kwargs (self st) ++ kwargs\<rparr>\<rparr>)
             (configured_url st) of
        (Inl e, st') \<Rightarrow> (Inl e, st')
      | (Inr u, st') \<Rightarrow> (Inr (), register_extension st'))"
  using assms by (simp add: init_app_def configured_url_def Let_def)

lemma init_app_no_sentinel:
  assumes "urlparse (bracket_ok env) (configured_url st) = Inr p"
    and "scheme p \<in> set [''redis+sentinel'', ''rediss+sentinel'']"
    and "Sentinel env = None"
  shows "init_app env st kwargs =
     (Inl ImportError,
      st\<lparr>self := (self st)\<lparr>provider_kwargs := provider_kwargs (self st) ++ kwargs\<rparr>\<rparr>)"
  using assms by (simp add: init_app_def configured_url_def Let_def)

lemma init_app_discovery:
  assumes "urlparse (bracket_ok env) (configured_url st) = Inr p"
    and "scheme p \<in> set [''redis+sentinel'', ''rediss+sentinel'']"
    and "Sentinel env \<noteq> None"
  shows "init_app env st kwargs =
     (case init_sentinel_client env
             (st\<lparr>self := (self st)\<lparr>provider_kwargs := provider_kwargs (self st) ++ kwargs\<rparr>\<rparr>)
             p of
        (Inl e, st') \<Rightarrow> (Inl e, st')
      | (Inr u, st') \<Rightarrow> (Inr (), register_extension st'))"
  using assms by (auto simp add: init_app_def configured_url_def Let_def)

lemma init_sentinel_client_parse_error:
  "parse_sentinel_parameters p = Inl e \<Longrightarrow> init_sentinel_client env st p = (Inl e, st)"
  by (simp add: init_sentinel_client_def)

lemma resolve_direct:
  "urlparse ok url = Inr p \<Longrightarrow> scheme p \<notin> set [''redis+sentinel'', ''rediss+sentinel'']
     \<Longrightarrow> resolve ok url = Inr (Direct url)"
  by (simp add: resolve_def)

lemma resolve_discovery:
  "urlparse ok url = Inr p \<Longrightarrow> scheme p \<in> set [''redis+sentinel'', ''rediss+sentinel'']
     \<Longrightarrow> resolve ok url =
          (case parse_sentinel_parameters p of
             Inl e \<Rightarrow> Inl e
           | Inr (sk, ck) \<Rightarrow> Inr (Discovery sk ck))"
  by (auto simp add: resolve_def)

lemma init_app_of_direct_target:
  assumes "resolve (bracket_ok env) (configured_url st) = Inr (Direct u)"
  shows "u = configured_url st
    \<and> init_app env st kwargs =
        (case init_standard_client
                (st\<lparr>self := (self st)\<lparr>provider_kwargs := provider_kwargs (self st) ++ kwargs\<rparr>\<rparr>)
                u of
           (Inl e, st') \<Rightarrow> (Inl e, st')
         | (Inr x, st') \<Rightarrow> (Inr (), register_extension st'))"
proof -
  from assms obtain p where parsed: "urlparse (bracket_ok env) (configured_url st) = Inr p"
    by (cases "urlparse (bracket_ok env) (configured_url st)") (simp_all add: resolve_def)
  from assms parsed have direct: "scheme p \<notin> set [''redis+sentinel'', ''rediss+sentinel'']"
    and u: "u = configured_url st"
    by (auto simp: resolve_def split: if_splits sum.splits)
  from init_app_direct [OF parsed direct] u show ?thesis by simp
qed

lemma init_app_of_discovery_target:
  assumes "resolve (bracket_ok env) (configured_url st) = Inr (Discovery sk ck)"
    and "Sentinel env \<noteq> None"
  shows "\<exists>p. urlparse (bracket_ok env) (configured_url st) = Inr p
    \<and> parse_sentinel_parameters p = Inr (sk, ck)
    \<and> init_app env st kwargs =
        (case init_sentinel_client env
                (st\<lparr>self := (self st)\<lparr>provider_kwargs := provider_kwargs (self st) ++ kwargs\<rparr>\<rparr>)
                p of
           (Inl e, st') \<Rightarrow> (Inl e, st')
         | (Inr x, st') \<Rightarrow> (Inr (), register_extension st'))"
proof -
  from assms(1) obtain p where parsed: "urlparse (bracket_ok env) (configured_url st) = Inr p"
    by (cases "urlparse (bracket_ok env) (configured_url st)") (simp_all add: resolve_def)
  from assms(1) parsed have disc: "scheme p \<in> set [''redis+sentinel'', ''rediss+sentinel'']"
    and params: "parse_sentinel_parameters p = Inr (sk, ck)"
    by (auto simp: resolve_def split: if_splits sum.splits)
  from init_app_discovery [OF parsed disc assms(2)] parsed params show ?thesis by blast
qed

lemma init_app_of_resolve_error:
  assumes "resolve (bracket_ok env) (configured_url st) = Inl e"
    and "Sentinel env \<noteq> None"
  shows "init_app env st kwargs =
     (Inl e, st\<lparr>self := (self st)\<lparr>provider_kwargs := provider_kwargs (self st) ++ kwargs\<rparr>\<rparr>)"
proof (cases "urlparse (bracket_ok env) (configured_url st)")
  case (Inl e')
  with assms(1) show ?thesis
    by (simp add: resolve_def init_app_def configured_url_def Let_def)
next
  case (Inr p)
  from assms(1) Inr have disc: "scheme p \<in> set [''redis+sentinel'', ''rediss+sentinel'']"
    and err: "parse_sentinel_parameters p = Inl e"
    by (auto simp: resolve_def split: if_splits sum.splits)
  show ?thesis
    by (simp add: init_app_discovery [OF Inr disc assms(2)]
        init_sentinel_client_parse_error [OF err])
qed

subsection \<open>The resolved parameters, field by field\<close>

lemma parse_sentinel_parameters_fields:
  assumes "parse_sentinel_parameters p = Inr (sk, ck)"
  shows "parse_hosts p = Inr (sentinel_hosts sk)"
    and "parse_master_and_db p = Inr (sentinel_master_name sk, client_db ck)"
    and "parse_socket_timeout (parse_qs (query p)) = Inr (sentinel_socket_timeout sk)"
    and "\<exists>en. parse_ssl_enabled (scheme p) (parse_qs (query p)) = Inr en
           \<and> parse_ssl_params (parse_qs (query p)) en = Inr (sentinel_ssl_params sk)"
    and "sentinel_auth_params sk = parse_auth_params (username p) (password p)"
    and "client_socket_timeout ck = sentinel_socket_timeout sk"
    and "client_ssl_params ck = sentinel_ssl_params sk"
    and "client_auth_params ck = sentinel_auth_params sk"
  using assms
  by (auto simp: parse_sentinel_parameters_def extract_credentials_def Let_def
      split: sum.splits prod.splits)

lemma set_if_truthy_other: "k \<noteq> key \<Longrightarrow> set_if_truthy key v d k = d k"
  by (simp add: set_if_truthy_def split: option.splits)

lemma parse_ssl_params_disabled: "parse_ssl_params qp False = Inr Map.empty"
  by (simp add: parse_ssl_params_def)

lemma parse_ssl_params_enabled:
  "parse_ssl_params qp True = Inr m \<Longrightarrow> m ''ssl'' = Some (PyBool True)"
  by (auto simp: parse_ssl_params_def Let_def set_if_truthy_other
      split: sum.splits option.splits)

lemma parse_auth_params_values: "parse_auth_params user pass k = Some v \<Longrightarrow> v \<noteq> ''''"
  by (auto simp: parse_auth_params_def Let_def split: option.splits if_splits)

lemma parse_auth_params_none: "parse_auth_params None None = Map.empty"
  by (simp add: parse_auth_params_def)

lemma parse_qs_empty: "parse_qs '''' = Map.empty"
  by (simp add: parse_qs_def parse_qsl_def)

subsection \<open>Evaluating the resolver on examples\<close>

lemma parse_sentinel_parameters_eval:
  assumes "parse_hosts p = Inr hosts"
    and "parse_master_and_db p = Inr (name, db)"
    and "parse_socket_timeout (parse_qs (query p)) = Inr t"
    and "parse_ssl_enabled (scheme p) (parse_qs (query p)) = Inr en"
    and "parse_ssl_params (parse_qs (query p)) en = Inr ssl"
    and "parse_auth_params (username p) (password p) = auth"
  shows "parse_sentinel_parameters p =
     Inr (\<lparr>sentinel_hosts = hosts, sentinel_socket_timeout = t, sentinel_ssl_params = ssl,
            sentinel_auth_params = auth, sentinel_master_name = name\<rparr>,
          \<lparr>client_db = db, client_socket_timeout = t, client_ssl_params = ssl,
            client_auth_params = auth\<rparr>)"
  using assms by (simp add: parse_sentinel_parameters_def extract_credentials_def Let_def)

lemma parse_ssl_params_eval:
  assumes "parse_ssl_cert_reqs qp = Inr c"
    and "first_or_none qp ''ssl_keyfile'' = Inr None"
    and "first_or_none qp ''ssl_certfile'' = Inr None"
    and "first_or_none qp ''ssl_ca_certs'' = Inr None"
  shows "parse_ssl_params qp True =
     Inr (case c of None \<Rightarrow> [''ssl'' \<mapsto> PyBool True]
          | Some r \<Rightarrow> [''ssl'' \<mapsto> PyBool True, ''ssl_cert_reqs'' \<mapsto> PyCert r])"
  using assms by (simp add: parse_ssl_params_def set_if_truthy_def Let_def split: option.splits)

lemma example_parsed:
  "urlparse ok ''rediss+sentinel://u:p@h1:1,h2/grp/3?socket_timeout=2.5&ssl_cert_reqs=required''
   = Inr \<lparr>scheme = ''rediss+sentinel'', netloc = ''u:p@h1:1,h2'', path = ''/grp/3'',
           params = '''', query = ''socket_timeout=2.5&ssl_cert_reqs=required'',
           fragment = ''''\<rparr>"
  by code_simp

lemma example_parameters:
  "parse_sentinel_parameters
     \<lparr>scheme = ''rediss+sentinel'', netloc = ''u:p@h1:1,h2'', path = ''/grp/3'',
      params = '''', query = ''socket_timeout=2.5&ssl_cert_reqs=required'', fragment = ''''\<rparr>
   = Inr (\<lparr>sentinel_hosts = [(''h1'', 1), (''h2'', 26379)],
           sentinel_socket_timeout = Some (FloatOf 2.5),
           sentinel_ssl_params =
             [''ssl'' \<mapsto> PyBool True, ''ssl_cert_reqs'' \<mapsto> PyCert CERT_REQUIRED],
           sentinel_auth_params = [''username'' \<mapsto> ''u'', ''password'' \<mapsto> ''p''],
           sentinel_master_name = ''grp''\<rparr>,
          \<lparr>client_db = 3,
           client_socket_timeout = Some (FloatOf 2.5),
           client_ssl_params =
             [''ssl'' \<mapsto> PyBool True, ''ssl_cert_reqs'' \<mapsto> PyCert CERT_REQUIRED],
           client_auth_params = [''username'' \<mapsto> ''u'', ''password'' \<mapsto> ''p'']\<rparr>)"
    (is "parse_sentinel_parameters ?p = _")
proof (rule parse_sentinel_parameters_eval)
  show "parse_hosts ?p = Inr [(''h1'', 1), (''h2'', 26379)]" by code_simp
  show "parse_master_and_db ?p = Inr (''grp'', 3)" by code_simp
  show "parse_socket_timeout (parse_qs (query ?p)) = Inr (Some (FloatOf 2.5))" by code_simp
  show "parse_ssl_enabled (scheme ?p) (parse_qs (query ?p)) = Inr True" by code_simp
  have "parse_ssl_cert_reqs (parse_qs (query ?p)) = Inr (Some CERT_REQUIRED)"
    and "first_or_none (parse_qs (query ?p)) ''ssl_keyfile'' = Inr None"
    and "first_or_none (parse_qs (query ?p)) ''ssl_certfile'' = Inr None"
    and "first_or_none (parse_qs (query ?p)) ''ssl_ca_certs'' = Inr None"
    by code_simp+
  from parse_ssl_params_eval [OF this]
  show "parse_ssl_params (parse_qs (query ?p)) True =
          Inr [''ssl'' \<mapsto> PyBool True, ''ssl_cert_reqs'' \<mapsto> PyCert CERT_REQUIRED]"
    by simp
  have "username ?p = Some ''u''" and "password ?p = Some ''p''" by code_simp+
  then show "parse_auth_params (username ?p) (password ?p) =
          [''username'' \<mapsto> ''u'', ''password'' \<mapsto> ''p'']"
    by (simp add: parse_auth_params_def)
qed

lemma mymaster_parameters:
  "parse_sentinel_parameters
     \<lparr>scheme = ''redis+sentinel'', netloc = ''h'', path = ''/mymaster'', params = '''',
      query = '''', fragment = ''''\<rparr>
   = Inr (\<lparr>sentinel_hosts = [(''h'', 26379)], sentinel_socket_timeout = None,
           sentinel_ssl_params = Map.empty, sentinel_auth_params = Map.empty,
           sentinel_master_name = ''mymaster''\<rparr>,
          \<lparr>client_db = 0, client_socket_timeout = None, client_ssl_params = Map.empty,
           client_auth_params = Map.empty\<rparr>)"
    (is "parse_sentinel_parameters ?p = _")
proof (rule parse_sentinel_parameters_eval)
  show "parse_hosts ?p = Inr [(''h'', 26379)]" by code_simp
  show "parse_master_and_db ?p = Inr (''mymaster'', 0)" by code_simp
  show "parse_socket_timeout (parse_qs (query ?p)) = Inr None" by code_simp
  show "parse_ssl_enabled (scheme ?p) (parse_qs (query ?p)) = Inr False" by code_simp
  show "parse_ssl_params (parse_qs (query ?p)) False = Inr Map.empty"
    by (rule parse_ssl_params_disabled)
  have "username ?p = None" and "password ?p = None" by code_simp+
  then show "parse_auth_params (username ?p) (password ?p) = Map.empty"
    by (simp add: parse_auth_params_none)
qed

lemma ssl_cert_parameters:
  "parse_sentinel_parameters
     \<lparr>scheme = ''redis+sentinel'', netloc = ''h'', path = ''/g'', params = '''',
      query = ''ssl=true&ssl_cert_reqs=required'', fragment = ''''\<rparr>
   = Inr (\<lparr>sentinel_hosts = [(''h'', 26379)], sentinel_socket_timeout = None,
           sentinel_ssl_params =
             [''ssl'' \<mapsto> PyBool True, ''ssl_cert_reqs'' \<mapsto> PyCert CERT_REQUIRED],
           sentinel_auth_params = Map.empty, sentinel_master_name = ''g''\<rparr>,
          \<lparr>client_db = 0, client_socket_timeout = None,
           client_ssl_params =
             [''ssl'' \<mapsto> PyBool True, ''ssl_cert_reqs'' \<mapsto> PyCert CERT_REQUIRED],
           client_auth_params = Map.empty\<rparr>)"
    (is "parse_sentinel_parameters ?p = _")
proof (rule parse_sentinel_parameters_eval)
  show "parse_hosts ?p = Inr [(''h'', 26379)]" by code_simp
  show "parse_master_and_db ?p = Inr (''g'', 0)" by code_simp
  show "parse_socket_timeout (parse_qs (query ?p)) = Inr None" by code_simp
  show "parse_ssl_enabled (scheme ?p) (parse_qs (query ?p)) = Inr True" by code_simp
  have "parse_ssl_cert_reqs (parse_qs (query ?p)) = Inr (Some CERT_REQUIRED)"
    and "first_or_none (parse_qs (query ?p)) ''ssl_keyfile'' = Inr None"
    and "first_or_none (parse_qs (query ?p)) ''ssl_certfile'' = Inr None"
    and "first_or_none (parse_qs (query ?p)) ''ssl_ca_certs'' = Inr None"
    by code_simp+
  from parse_ssl_params_eval [OF this]
  show "parse_ssl_params (parse_qs (query ?p)) True =
          Inr [''ssl'' \<mapsto> PyBool True, ''ssl_cert_reqs'' \<mapsto> PyCert CERT_REQUIRED]"
    by simp
  have "username ?p = None" and "password ?p = None" by code_simp+
  then show "parse_auth_params (username ?p) (password ?p) = Map.empty"
    by (simp add: parse_auth_params_none)
qed

lemma ssl_only_parameters:
  "parse_sentinel_parameters
     \<lparr>scheme = ''redis+sentinel'', netloc = ''h'', path = ''/g'', params = '''',
      query = ''ssl=TRUE'', fragment = ''''\<rparr>
   = Inr (\<lparr>sentinel_hosts = [(''h'', 26379)], sentinel_socket_timeout = None,
           sentinel_ssl_params = [''ssl'' \<mapsto> PyBool True],
           sentinel_auth_params = Map.empty, sentinel_master_name = ''g''\<rparr>,
          \<lparr>client_db = 0, client_socket_timeout = None,
           client_ssl_params = [''ssl'' \<mapsto> PyBool True],
           client_auth_params = Map.empty\<rparr>)"
    (is "parse_sentinel_parameters ?p = _")
proof (rule parse_sentinel_parameters_eval)
  show "parse_hosts ?p = Inr [(''h'', 26379)]" by code_simp
  show "parse_master_and_db ?p = Inr (''g'', 0)" by code_simp
  show "parse_socket_timeout (parse_qs (query ?p)) = Inr None" by code_simp
  show "parse_ssl_enabled (scheme ?p) (parse_qs (query ?p)) = Inr True" by code_simp
  have "parse_ssl_cert_reqs (parse_qs (query ?p)) = Inr None"
    and "first_or_none (parse_qs (query ?p)) ''ssl_keyfile'' = Inr None"
    and "first_or_none (parse_qs (query ?p)) ''ssl_certfile'' = Inr None"
    and "first_or_none (parse_qs (query ?p)) ''ssl_ca_certs'' = Inr None"
    by code_simp+
  from parse_ssl_params_eval [OF this]
  show "parse_ssl_params (parse_qs (query ?p)) True = Inr [''ssl'' \<mapsto> PyBool True]"
    by simp
  have "username ?p = None" and "password ?p = None" by code_simp+
  then show "parse_auth_params (username ?p) (password ?p) = Map.empty"
    by (simp add: parse_auth_params_none)
qed

lemma secure_scheme_parameters:
  "parse_sentinel_parameters
     \<lparr>scheme = ''rediss+sentinel'', netloc = ''h'', path = ''/g'', params = '''',
      query = '''', fragment = ''''\<rparr>
   = Inr (\<lparr>sentinel_hosts = [(''h'', 26379)], sentinel_socket_timeout = None,
           sentinel_ssl_params = [''ssl'' \<mapsto> PyBool True],
           sentinel_auth_params = Map.empty, sentinel_master_name = ''g''\<rparr>,
          \<lparr>client_db = 0, client_socket_timeout = None,
           client_ssl_params = [''ssl'' \<mapsto> PyBool True],
           client_auth_params = Map.empty\<rparr>)"
    (is "parse_sentinel_parameters ?p = _")
proof (rule parse_sentinel_parameters_eval)
  show "parse_hosts ?p = Inr [(''h'', 26379)]" by code_simp
  show "parse_master_and_db ?p = Inr (''g'', 0)" by code_simp
  show "parse_socket_timeout (parse_qs (query ?p)) = Inr None" by code_simp
  show "parse_ssl_enabled (scheme ?p) (parse_qs (query ?p)) = Inr True" by code_simp
  have "parse_ssl_cert_reqs (parse_qs (query ?p)) = Inr None"
    and "first_or_none (parse_qs (query ?p)) ''ssl_keyfile'' = Inr None"
    and "first_or_none (parse_qs (query ?p)) ''ssl_certfile'' = Inr None"
    and "first_or_none (parse_qs (query ?p)) ''ssl_ca_certs'' = Inr None"
    by code_simp+
  from parse_ssl_params_eval [OF this]
  show "parse_ssl_params (parse_qs (query ?p)) True = Inr [''ssl'' \<mapsto> PyBool True]"
    by simp
  have "username ?p = None" and "password ?p = None" by code_simp+
  then show "parse_auth_params (username ?p) (password ?p) = Map.empty"
    by (simp add: parse_auth_params_none)
qed

lemma ssl_cert_differs:
  "[''ssl'' \<mapsto> PyBool True, ''ssl_cert_reqs'' \<mapsto> PyCert CERT_REQUIRED]
     \<noteq> [''ssl'' \<mapsto> PyBool True]"
proof
  assume "[''ssl'' \<mapsto> PyBool True, ''ssl_cert_reqs'' \<mapsto> PyCert CERT_REQUIRED]
     = [''ssl'' \<mapsto> PyBool True]"
  then have "[''ssl'' \<mapsto> PyBool True, ''ssl_cert_reqs'' \<mapsto> PyCert CERT_REQUIRED] ''ssl_cert_reqs''
     = [''ssl'' \<mapsto> PyBool True] ''ssl_cert_reqs''"
    by (rule fun_cong)
  then show False by simp
qed

lemma empty_password_parameters:
  "parse_sentinel_parameters
     \<lparr>scheme = ''redis+sentinel'', netloc = ''u:@host'', path = ''/g'', params = '''',
      query = '''', fragment = ''''\<rparr>
   = Inr (\<lparr>sentinel_hosts = [(''host'', 26379)], sentinel_socket_timeout = None,
           sentinel_ssl_params = Map.empty,
           sentinel_auth_params = [''username'' \<mapsto> ''u''], sentinel_master_name = ''g''\<rparr>,
          \<lparr>client_db = 0, client_socket_timeout = None, client_ssl_params = Map.empty,
           client_auth_params = [''username'' \<mapsto> ''u'']\<rparr>)"
    (is "parse_sentinel_parameters ?p = _")
proof (rule parse_sentinel_parameters_eval)
  show "parse_hosts ?p = Inr [(''host'', 26379)]" by code_simp
  show "parse_master_and_db ?p = Inr (''g'', 0)" by code_simp
  show "parse_socket_timeout (parse_qs (query ?p)) = Inr None" by code_simp
  show "parse_ssl_enabled (scheme ?p) (parse_qs (query ?p)) = Inr False" by code_simp
  show "parse_ssl_params (parse_qs (query ?p)) False = Inr Map.empty"
    by (rule parse_ssl_params_disabled)
  have "username ?p = Some ''u''" and "password ?p = Some ''''" by code_simp+
  then show "parse_auth_params (username ?p) (password ?p) = [''username'' \<mapsto> ''u'']"
    by (simp add: parse_auth_params_def)
qed

lemma example_state_simps:
  "configured_url (state_with_url url) = url"
  "calls (state_with_url url) = []"
  "redis_client (self (state_with_url url)) = None"
  "extensions (app (state_with_url url)) = None"
  "decode_responses (self (state_with_url url)) = True"
  "provider_kwargs (self (state_with_url url)) = Map.empty"
  "provider_class (self (state_with_url url)) = example_from_url"
  by (simp_all add: configured_url_def state_with_url_def fresh_instance_def)

lemma example_env_simps:
  "bracket_ok env_with_sentinel = any_host"
  "Sentinel env_with_sentinel = Some example_sentinel"
  "bracket_ok env_without_sentinel = any_host"
  "Sentinel env_without_sentinel = None"
  by (simp_all add: env_with_sentinel_def env_without_sentinel_def)

section \<open>The claims\<close>

subsection \<open>C1\<close>

text \<open>
  Claim C1. Resolving
  \<^verbatim>\<open>rediss+sentinel://u:p@h1:1,h2/grp/3?socket_timeout=2.5&ssl_cert_reqs=required\<close>
  gives the hosts \<open>[(h1, 1), (h2, 26379)]\<close> in that order, the group \<open>grp\<close>, the
  database 3, the socket timeout 2.5, security enabled with the certificate requirement
  Required and no other security field, and the credentials \<open>u\<close> and \<open>p\<close>; the
  dictionary for \<^verbatim>\<open>Sentinel\<close> and the one for \<^verbatim>\<open>master_for\<close> agree. This holds
  whatever the interpreter's validation of bracketed hosts is (the URL has none).
\<close>
theorem C1_resolve_example:
  "resolve ok ''rediss+sentinel://u:p@h1:1,h2/grp/3?socket_timeout=2.5&ssl_cert_reqs=required''
   = Inr (Discovery
       \<lparr>sentinel_hosts = [(''h1'', 1), (''h2'', 26379)],
        sentinel_socket_timeout = Some (FloatOf 2.5),
        sentinel_ssl_params =
          [''ssl'' \<mapsto> PyBool True, ''ssl_cert_reqs'' \<mapsto> PyCert CERT_REQUIRED],
        sentinel_auth_params = [''username'' \<mapsto> ''u'', ''password'' \<mapsto> ''p''],
        sentinel_master_name = ''grp''\<rparr>
       \<lparr>client_db = 3,
        client_socket_timeout = Some (FloatOf 2.5),
        client_ssl_params =
          [''ssl'' \<mapsto> PyBool True, ''ssl_cert_reqs'' \<mapsto> PyCert CERT_REQUIRED],
        client_auth_params = [''username'' \<mapsto> ''u'', ''password'' \<mapsto> ''p'']\<rparr>)"
  by (simp add: resolve_def example_parsed example_parameters)

subsection \<open>C2\<close>

text \<open>
  Claim C2. For every parsed URL the list \<^verbatim>\<open>_parse_hosts\<close> builds is the one the
  specification words: the credentials up to the first \<^verbatim>\<open>@\<close> are stripped from the
  authority, the rest is split on \<^verbatim>\<open>,\<close>, and each token gives its host with the
  port parsed by \<^verbatim>\<open>int\<close> when it has a \<^verbatim>\<open>:\<close> and 26379 otherwise. Both fail
  on the same inputs with the same error. When the list is returned it has one entry for
  each token, the \<open>i\<close>-th entry coming from the \<open>i\<close>-th token, and it is the list
  of hosts of the resolved parameters.
\<close>
theorem C2_coordinator_hosts:
  "parse_hosts p = spec_coordinator_hosts p
   \<and> (\<forall>hosts. parse_hosts p = Inr hosts \<longrightarrow>
        length hosts = length (host_tokens p)
        \<and> (\<forall>i < length (host_tokens p).
              spec_host_token (host_tokens p ! i) = Inr (hosts ! i)))
   \<and> (\<forall>sk ck. parse_sentinel_parameters p = Inr (sk, ck) \<longrightarrow>
        spec_coordinator_hosts p = Inr (sentinel_hosts sk))"
proof -
  have eq: "parse_hosts p = spec_coordinator_hosts p" by (rule parse_hosts_spec)
  have order: "length hosts = length (host_tokens p)
        \<and> (\<forall>i < length (host_tokens p).
              spec_host_token (host_tokens p ! i) = Inr (hosts ! i))"
    if "parse_hosts p = Inr hosts" for hosts
  proof -
    from that eq have all: "all_or_first_error (map spec_host_token (host_tokens p)) = Inr hosts"
      by (simp add: spec_coordinator_hosts_def)
    from all_or_first_error_length [OF all] have len: "length hosts = length (host_tokens p)"
      by simp
    have "spec_host_token (host_tokens p ! i) = Inr (hosts ! i)"
      if "i < length (host_tokens p)" for i
      using all_or_first_error_nth [OF all, of i] that by simp
    with len show ?thesis by blast
  qed
  have "spec_coordinator_hosts p = Inr (sentinel_hosts sk)"
    if "parse_sentinel_parameters p = Inr (sk, ck)" for sk ck
    using parse_sentinel_parameters_fields(1) [OF that] eq by simp
  with eq order show ?thesis by blast
qed

text \<open>Claim C2 at the authority \<^verbatim>\<open>u:p@h1:1,h2\<close>.\<close>
theorem C2_coordinator_hosts_witness:
  "parse_hosts
     \<lparr>scheme = ''rediss+sentinel'', netloc = ''u:p@h1:1,h2'', path = ''/grp/3'',
      params = '''', query = '''', fragment = ''''\<rparr>
     = Inr [(''h1'', 1), (''h2'', 26379)]
   \<and> host_tokens
     \<lparr>scheme = ''rediss+sentinel'', netloc = ''u:p@h1:1,h2'', path = ''/grp/3'',
      params = '''', query = '''', fragment = ''''\<rparr>
     = [''h1:1'', ''h2'']
   \<and> spec_host_token ''h1:1'' = Inr (''h1'', 1)
   \<and> spec_host_token ''h2'' = Inr (''h2'', 26379)"
proof -
  let ?p = "\<lparr>scheme = ''rediss+sentinel'', netloc = ''u:p@h1:1,h2'', path = ''/grp/3'',
      params = '''', query = '''', fragment = ''''\<rparr>"
  have spec: "spec_coordinator_hosts ?p = Inr [(''h1'', 1), (''h2'', 26379)]" by code_simp
  have toks: "host_tokens ?p = [''h1:1'', ''h2'']" by code_simp
  from C2_coordinator_hosts [of ?p] spec
  have hosts: "parse_hosts ?p = Inr [(''h1'', 1), (''h2'', 26379)]" by simp
  with C2_coordinator_hosts [of ?p] toks
  have each: "\<forall>i<2. spec_host_token ([''h1:1'', ''h2''] ! i)
                        = Inr ([(''h1'', 1), (''h2'', 26379)] ! i)"
    by simp
  from each [rule_format, of 0] each [rule_format, of 1]
  have "spec_host_token ''h1:1'' = Inr (''h1'', 1)"
    and "spec_host_token ''h2'' = Inr (''h2'', 26379)"
    by simp_all
  with hosts toks show ?thesis by simp
qed

subsection \<open>C3\<close>

text \<open>
  Claim C3. Let the configured URL be accepted by \<^verbatim>\<open>urlparse\<close> with a scheme that
  is neither \<^verbatim>\<open>redis+sentinel\<close> nor \<^verbatim>\<open>rediss+sentinel\<close>. Then resolution
  yields a Direct target carrying that string, and \<^verbatim>\<open>init_app\<close> makes exactly one call
  to the client library: \<^verbatim>\<open>from_url\<close>, with the configured string itself as the URL
  (with \<^verbatim>\<open>decode_responses\<close> and the merged keyword arguments). The outcome of
  \<^verbatim>\<open>init_app\<close> is the outcome of that call, and its result becomes the stored client.
\<close>
theorem C3_direct_url_unchanged:
  assumes "configured_url st = redis_url"
    and "urlparse (bracket_ok env) redis_url = Inr p"
    and "scheme p \<notin> set [''redis+sentinel'', ''rediss+sentinel'']"
  shows "resolve (bracket_ok env) redis_url = Inr (Direct redis_url)
    \<and> calls (snd (init_app env st kwargs)) =
        calls st @ [FromUrl redis_url (decode_responses (self st))
                      (provider_kwargs (self st) ++ kwargs)]
    \<and> fst (init_app env st kwargs) =
        (case provider_class (self st) redis_url (decode_responses (self st))
                (provider_kwargs (self st) ++ kwargs) of
           Inl e \<Rightarrow> Inl e
         | Inr c \<Rightarrow> Inr ())
    \<and> redis_client (self (snd (init_app env st kwargs))) =
        (case provider_class (self st) redis_url (decode_responses (self st))
                (provider_kwargs (self st) ++ kwargs) of
           Inl e \<Rightarrow> redis_client (self st)
         | Inr c \<Rightarrow> Some c)"
proof -
  from assms have parsed: "urlparse (bracket_ok env) (configured_url st) = Inr p" by simp
  have "resolve (bracket_ok env) redis_url = Inr (Direct redis_url)"
    using assms(2,3) by (rule resolve_direct)
  then show ?thesis
    by (simp add: init_app_direct [OF parsed assms(3)] assms(1) init_standard_client_def
        register_extension_def Let_def split: sum.splits)
qed

text \<open>Claim C3 at the default URL, with the example client library.\<close>
theorem C3_direct_url_unchanged_witness:
  "resolve any_host ''redis://localhost:6379/0'' = Inr (Direct ''redis://localhost:6379/0'')
   \<and> calls (snd (init_app env_with_sentinel (state_with_url ''redis://localhost:6379/0'')
                  Map.empty))
       = [FromUrl ''redis://localhost:6379/0'' True Map.empty]
   \<and> fst (init_app env_with_sentinel (state_with_url ''redis://localhost:6379/0'') Map.empty)
       = Inr ()
   \<and> redis_client (self (snd (init_app env_with_sentinel
                                 (state_with_url ''redis://localhost:6379/0'') Map.empty)))
       = Some 1"
proof -
  let ?u = "''redis://localhost:6379/0''"
  let ?p = "\<lparr>scheme = ''redis'', netloc = ''localhost:6379'', path = ''/0'', params = '''',
      query = '''', fragment = ''''\<rparr>"
  have url: "configured_url (state_with_url ?u) = ?u" by (rule example_state_simps)
  have "urlparse any_host ?u = Inr ?p" by code_simp
  then have parsed: "urlparse (bracket_ok env_with_sentinel) ?u = Inr ?p"
    by (simp add: example_env_simps)
  have direct: "scheme ?p \<notin> set [''redis+sentinel'', ''rediss+sentinel'']" by code_simp
  from C3_direct_url_unchanged [OF url parsed direct, of Map.empty]
  show ?thesis by (simp add: example_state_simps example_env_simps example_from_url_def)
qed

subsection \<open>C4\<close>

text \<open>
  Claim C4 as stated fails when the query has a certificate field beside
  \<^verbatim>\<open>ssl=true\<close>: the field is part of the security parameters, which then differ
  from those of the \<^verbatim>\<open>rediss+sentinel\<close> URL with no query.
\<close>
theorem C4_counterexample:
  "parse_qs ''ssl=true&ssl_cert_reqs=required'' ''ssl'' = Some [''true'']
   \<and> resolve any_host ''redis+sentinel://h/g?ssl=true&ssl_cert_reqs=required''
       = Inr (Discovery
           \<lparr>sentinel_hosts = [(''h'', 26379)], sentinel_socket_timeout = None,
            sentinel_ssl_params =
              [''ssl'' \<mapsto> PyBool True, ''ssl_cert_reqs'' \<mapsto> PyCert CERT_REQUIRED],
            sentinel_auth_params = Map.empty, sentinel_master_name = ''g''\<rparr>
           \<lparr>client_db = 0, client_socket_timeout = None,
            client_ssl_params =
              [''ssl'' \<mapsto> PyBool True, ''ssl_cert_reqs'' \<mapsto> PyCert CERT_REQUIRED],
            client_auth_params = Map.empty\<rparr>)
   \<and> resolve any_host ''rediss+sentinel://h/g''
       = Inr (Discovery
           \<lparr>sentinel_hosts = [(''h'', 26379)], sentinel_socket_timeout = None,
            sentinel_ssl_params = [''ssl'' \<mapsto> PyBool True],
            sentinel_auth_params = Map.empty, sentinel_master_name = ''g''\<rparr>
           \<lparr>client_db = 0, client_socket_timeout = None,
            client_ssl_params = [''ssl'' \<mapsto> PyBool True],
            client_auth_params = Map.empty\<rparr>)
   \<and> [''ssl'' \<mapsto> PyBool True, ''ssl_cert_reqs'' \<mapsto> PyCert CERT_REQUIRED]
       \<noteq> [''ssl'' \<mapsto> PyBool True]"
proof -
  have q: "parse_qs ''ssl=true&ssl_cert_reqs=required'' ''ssl'' = Some [''true'']"
    by code_simp
  have p1: "urlparse any_host ''redis+sentinel://h/g?ssl=true&ssl_cert_reqs=required''
      = Inr \<lparr>scheme = ''redis+sentinel'', netloc = ''h'', path = ''/g'', params = '''',
              query = ''ssl=true&ssl_cert_reqs=required'', fragment = ''''\<rparr>"
    by code_simp
  have p2: "urlparse any_host ''rediss+sentinel://h/g''
      = Inr \<lparr>scheme = ''rediss+sentinel'', netloc = ''h'', path = ''/g'', params = '''',
              query = '''', fragment = ''''\<rparr>"
    by code_simp
  have r1: "resolve any_host ''redis+sentinel://h/g?ssl=true&ssl_cert_reqs=required''
       = Inr (Discovery
           \<lparr>sentinel_hosts = [(''h'', 26379)], sentinel_socket_timeout = None,
            sentinel_ssl_params =
              [''ssl'' \<mapsto> PyBool True, ''ssl_cert_reqs'' \<mapsto> PyCert CERT_REQUIRED],
            sentinel_auth_params = Map.empty, sentinel_master_name = ''g''\<rparr>
           \<lparr>client_db = 0, client_socket_timeout = None,
            client_ssl_params =
              [''ssl'' \<mapsto> PyBool True, ''ssl_cert_reqs'' \<mapsto> PyCert CERT_REQUIRED],
            client_auth_params = Map.empty\<rparr>)"
    by (simp add: resolve_def p1 ssl_cert_parameters)
  have r2: "resolve any_host ''rediss+sentinel://h/g''
       = Inr (Discovery
           \<lparr>sentinel_hosts = [(''h'', 26379)], sentinel_socket_timeout = None,
            sentinel_ssl_params = [''ssl'' \<mapsto> PyBool True],
            sentinel_auth_params = Map.empty, sentinel_master_name = ''g''\<rparr>
           \<lparr>client_db = 0, client_socket_timeout = None,
            client_ssl_params = [''ssl'' \<mapsto> PyBool True],
            client_auth_params = Map.empty\<rparr>)"
    by (simp add: resolve_def p2 secure_scheme_parameters)
  from q r1 r2 ssl_cert_differs show ?thesis by (intro conjI)
qed

text \<open>
  Claim C4, amended. Take a URL with the scheme \<^verbatim>\<open>redis+sentinel\<close> that resolves,
  whose first \<^verbatim>\<open>ssl\<close> value is \<^verbatim>\<open>true\<close> in any case, and whose query gives no
  recognised \<^verbatim>\<open>ssl_cert_reqs\<close> value and no \<^verbatim>\<open>ssl_keyfile\<close>,
  \<^verbatim>\<open>ssl_certfile\<close> or \<^verbatim>\<open>ssl_ca_certs\<close>. Then the URL with the same components
  but the scheme \<^verbatim>\<open>rediss+sentinel\<close> and an empty query resolves too, and both have
  the same security parameters: \<^verbatim>\<open>ssl\<close> set to true and nothing else.
\<close>
theorem C4_ssl_query_parameter:
  assumes "urlparse ok url = Inr p"
    and "scheme p = ''redis+sentinel''"
    and "parse_qs (query p) ''ssl'' = Some (v # vs)"
    and "lower v = ''true''"
    and "parse_ssl_cert_reqs (parse_qs (query p)) = Inr None"
    and "list_all (\<lambda>k. parse_qs (query p) k = None)
           [''ssl_keyfile'', ''ssl_certfile'', ''ssl_ca_certs'']"
    and "resolve ok url = Inr (Discovery sk ck)"
    and "urlparse ok url' = Inr (p\<lparr>scheme := ''rediss+sentinel'', query := ''''\<rparr>)"
  shows "\<exists>sk' ck'. resolve ok url' = Inr (Discovery sk' ck')
           \<and> sentinel_ssl_params sk = sentinel_ssl_params sk'
           \<and> client_ssl_params ck = client_ssl_params ck'
           \<and> sentinel_ssl_params sk' = [''ssl'' \<mapsto> PyBool True]
           \<and> client_ssl_params ck' = [''ssl'' \<mapsto> PyBool True]"
proof -
  let ?p' = "p\<lparr>scheme := ''rediss+sentinel'', query := ''''\<rparr>"
  have disc: "scheme p \<in> set [''redis+sentinel'', ''rediss+sentinel'']"
    using assms(2) by simp
  have disc': "scheme ?p' \<in> set [''redis+sentinel'', ''rediss+sentinel'']" by simp
  from assms(7) have parsed: "parse_sentinel_parameters p = Inr (sk, ck)"
    by (simp add: resolve_discovery [OF assms(1) disc] split: sum.splits prod.splits)
  note f = parse_sentinel_parameters_fields [OF parsed]
  have en: "parse_ssl_enabled (scheme p) (parse_qs (query p)) = Inr True"
    using assms(3,4) by (simp add: parse_ssl_enabled_def)
  have files: "first_or_none (parse_qs (query p)) ''ssl_keyfile'' = Inr None"
    "first_or_none (parse_qs (query p)) ''ssl_certfile'' = Inr None"
    "first_or_none (parse_qs (query p)) ''ssl_ca_certs'' = Inr None"
    using assms(6) by (simp_all add: first_or_none_def)
  have "parse_ssl_params (parse_qs (query p)) True = Inr [''ssl'' \<mapsto> PyBool True]"
    by (simp add: parse_ssl_params_def assms(5) files set_if_truthy_def)
  with f(4) en have ssl: "sentinel_ssl_params sk = [''ssl'' \<mapsto> PyBool True]" by auto
  have hosts': "parse_hosts ?p' = parse_hosts p" by (simp add: parse_hosts_def)
  have db': "parse_master_and_db ?p' = parse_master_and_db p"
    by (simp add: parse_master_and_db_def)
  have creds': "extract_credentials ?p' = extract_credentials p"
    by (simp add: extract_credentials_def username_def password_def userinfo_def)
  have timeout': "parse_socket_timeout Map.empty = Inr None"
    by (simp add: parse_socket_timeout_def first_or_none_def)
  have ssl': "parse_ssl_params Map.empty True = Inr [''ssl'' \<mapsto> PyBool True]"
    by (simp add: parse_ssl_params_def parse_ssl_cert_reqs_def first_or_none_def
        set_if_truthy_def)
  obtain u pw where creds: "extract_credentials p = (u, pw)"
    by (cases "extract_credentials p")
  let ?sk' = "\<lparr>sentinel_hosts = sentinel_hosts sk, sentinel_socket_timeout = None,
               sentinel_ssl_params = [''ssl'' \<mapsto> PyBool True],
               sentinel_auth_params = parse_auth_params u pw,
               sentinel_master_name = sentinel_master_name sk\<rparr>"
  let ?ck' = "\<lparr>client_db = client_db ck, client_socket_timeout = None,
               client_ssl_params = [''ssl'' \<mapsto> PyBool True],
               client_auth_params = parse_auth_params u pw\<rparr>"
  have parsed': "parse_sentinel_parameters ?p' = Inr (?sk', ?ck')"
    by (simp add: parse_sentinel_parameters_def hosts' db' creds' creds f(1,2) parse_qs_empty
        timeout' parse_ssl_enabled_def ssl' Let_def)
  have "resolve ok url' = Inr (Discovery ?sk' ?ck')"
    by (simp add: resolve_discovery [OF assms(8) disc'] parsed')
  moreover have "sentinel_ssl_params sk = sentinel_ssl_params ?sk'"
    and "client_ssl_params ck = client_ssl_params ?ck'"
    using ssl f(7) by simp_all
  ultimately show ?thesis by (intro exI [of _ ?sk'] exI [of _ ?ck']) simp
qed

text \<open>The amended claim C4 at \<^verbatim>\<open>redis+sentinel://h/g?ssl=TRUE\<close>.\<close>
theorem C4_ssl_query_parameter_witness:
  "resolve any_host ''redis+sentinel://h/g?ssl=TRUE''
     = Inr (Discovery
         \<lparr>sentinel_hosts = [(''h'', 26379)], sentinel_socket_timeout = None,
          sentinel_ssl_params = [''ssl'' \<mapsto> PyBool True],
          sentinel_auth_params = Map.empty, sentinel_master_name = ''g''\<rparr>
         \<lparr>client_db = 0, client_socket_timeout = None,
          client_ssl_params = [''ssl'' \<mapsto> PyBool True],
          client_auth_params = Map.empty\<rparr>)
   \<and> (\<exists>sk' ck'. resolve any_host ''rediss+sentinel://h/g'' = Inr (Discovery sk' ck')
         \<and> sentinel_ssl_params sk' = [''ssl'' \<mapsto> PyBool True]
         \<and> client_ssl_params ck' = [''ssl'' \<mapsto> PyBool True])"
proof -
  let ?p = "\<lparr>scheme = ''redis+sentinel'', netloc = ''h'', path = ''/g'', params = '''',
      query = ''ssl=TRUE'', fragment = ''''\<rparr>"
  let ?sk = "\<lparr>sentinel_hosts = [(''h'', 26379)], sentinel_socket_timeout = None,
          sentinel_ssl_params = [''ssl'' \<mapsto> PyBool True],
          sentinel_auth_params = Map.empty, sentinel_master_name = ''g''\<rparr>"
  let ?ck = "\<lparr>client_db = 0, client_socket_timeout = None,
          client_ssl_params = [''ssl'' \<mapsto> PyBool True],
          client_auth_params = Map.empty\<rparr>"
  have h1: "urlparse any_host ''redis+sentinel://h/g?ssl=TRUE'' = Inr ?p" by code_simp
  have h2: "scheme ?p = ''redis+sentinel''" by simp
  have h3: "parse_qs (query ?p) ''ssl'' = Some (''TRUE'' # [])" by code_simp
  have h4: "lower ''TRUE'' = ''true''" by code_simp
  have h5: "parse_ssl_cert_reqs (parse_qs (query ?p)) = Inr None" by code_simp
  have h6: "list_all (\<lambda>k. parse_qs (query ?p) k = None)
              [''ssl_keyfile'', ''ssl_certfile'', ''ssl_ca_certs'']" by code_simp
  have h7: "resolve any_host ''redis+sentinel://h/g?ssl=TRUE'' = Inr (Discovery ?sk ?ck)"
    by (simp add: resolve_def h1 ssl_only_parameters)
  have h8: "urlparse any_host ''rediss+sentinel://h/g''
      = Inr (?p\<lparr>scheme := ''rediss+sentinel'', query := ''''\<rparr>)" by code_simp
  from C4_ssl_query_parameter [OF h1 h2 h3 h4 h5 h6 h7 h8] h7 show ?thesis by auto
qed

subsection \<open>C5\<close>

text \<open>
  Claim C5 as stated fails for a path of one segment: the group name of
  \<^verbatim>\<open>redis+sentinel://h/mymaster\<close> is \<^verbatim>\<open>mymaster\<close>, not the empty string.
\<close>
theorem C5_counterexample:
  "CHR ''/'' \<notin> set (lstrip CHR ''/'' ''/mymaster'')
   \<and> urlparse any_host ''redis+sentinel://h/mymaster''
       = Inr \<lparr>scheme = ''redis+sentinel'', netloc = ''h'', path = ''/mymaster'', params = '''',
               query = '''', fragment = ''''\<rparr>
   \<and> resolve any_host ''redis+sentinel://h/mymaster''
       = Inr (Discovery
           \<lparr>sentinel_hosts = [(''h'', 26379)], sentinel_socket_timeout = None,
            sentinel_ssl_params = Map.empty, sentinel_auth_params = Map.empty,
            sentinel_master_name = ''mymaster''\<rparr>
           \<lparr>client_db = 0, client_socket_timeout = None, client_ssl_params = Map.empty,
            client_auth_params = Map.empty\<rparr>)
   \<and> ''mymaster'' \<noteq> ''''"
proof -
  have strip: "CHR ''/'' \<notin> set (lstrip CHR ''/'' ''/mymaster'')" by code_simp
  have parsed: "urlparse any_host ''redis+sentinel://h/mymaster''
       = Inr \<lparr>scheme = ''redis+sentinel'', netloc = ''h'', path = ''/mymaster'', params = '''',
               query = '''', fragment = ''''\<rparr>"
    by code_simp
  show ?thesis by (simp add: strip parsed resolve_def mymaster_parameters)
qed

text \<open>
  Claim C5, amended. When the path, with its leading \<^verbatim>\<open>/\<close> characters stripped,
  has no \<^verbatim>\<open>/\<close>, the group name is that whole stripped path and the database
  index is 0. The group name is the empty string exactly when the path has no other
  character than \<^verbatim>\<open>/\<close>.
\<close>
theorem C5_single_segment_path:
  assumes "CHR ''/'' \<notin> set (lstrip CHR ''/'' (path p))"
  shows "parse_master_and_db p = Inr (lstrip CHR ''/'' (path p), 0)
    \<and> (\<forall>sk ck. parse_sentinel_parameters p = Inr (sk, ck) \<longrightarrow>
          sentinel_master_name sk = lstrip CHR ''/'' (path p) \<and> client_db ck = 0)
    \<and> (lstrip CHR ''/'' (path p) = '''' \<longleftrightarrow> list_all (\<lambda>c. c = CHR ''/'') (path p))"
proof -
  have m: "parse_master_and_db p = Inr (lstrip CHR ''/'' (path p), 0)"
    using assms by (simp add: parse_master_and_db_eq)
  have "sentinel_master_name sk = lstrip CHR ''/'' (path p) \<and> client_db ck = 0"
    if "parse_sentinel_parameters p = Inr (sk, ck)" for sk ck
    using parse_sentinel_parameters_fields(2) [OF that] m by simp
  moreover have "lstrip CHR ''/'' (path p) = '''' \<longleftrightarrow> list_all (\<lambda>c. c = CHR ''/'') (path p)"
    by (simp add: lstrip_def list_all_iff)
  ultimately show ?thesis using m by blast
qed

text \<open>The amended claim C5 at the paths \<^verbatim>\<open>/mymaster\<close> and \<^verbatim>\<open>//\<close>.\<close>
theorem C5_single_segment_path_witness:
  "parse_master_and_db
     \<lparr>scheme = ''redis+sentinel'', netloc = ''h'', path = ''/mymaster'', params = '''',
      query = '''', fragment = ''''\<rparr> = Inr (''mymaster'', 0)
   \<and> parse_master_and_db
     \<lparr>scheme = ''redis+sentinel'', netloc = ''h'', path = ''//'', params = '''',
      query = '''', fragment = ''''\<rparr> = Inr ('''', 0)"
proof -
  let ?p = "\<lparr>scheme = ''redis+sentinel'', netloc = ''h'', path = ''/mymaster'', params = '''',
      query = '''', fragment = ''''\<rparr>"
  let ?q = "\<lparr>scheme = ''redis+sentinel'', netloc = ''h'', path = ''//'', params = '''',
      query = '''', fragment = ''''\<rparr>"
  have p: "CHR ''/'' \<notin> set (lstrip CHR ''/'' (path ?p))" by code_simp
  have q: "CHR ''/'' \<notin> set (lstrip CHR ''/'' (path ?q))" by code_simp
  have "lstrip CHR ''/'' (path ?p) = ''mymaster''" and "lstrip CHR ''/'' (path ?q) = ''''"
    by code_simp+
  with C5_single_segment_path [OF p] C5_single_segment_path [OF q] show ?thesis by simp
qed

subsection \<open>C6\<close>




subsection \<open>C7\<close>

text \<open>
  Claim C7. In the resolved parameters of every URL, the security dictionary has the key
  \<^verbatim>\<open>ssl\<close> (with the value true) exactly when security is enabled, any key at all
  only when security is enabled, and is empty when security is disabled. The dictionary
  handed to \<^verbatim>\<open>master_for\<close> is the same one.
\<close>
theorem C7_security_invariant:
  assumes "parse_sentinel_parameters p = Inr (sk, ck)"
  shows "(\<exists>enabled. parse_ssl_enabled (scheme p) (parse_qs (query p)) = Inr enabled
            \<and> sentinel_ssl_params sk ''ssl'' = (if enabled then Some (PyBool True) else None)
            \<and> (\<not> enabled \<longrightarrow> sentinel_ssl_params sk = Map.empty)
            \<and> (\<forall>k v. sentinel_ssl_params sk k = Some v \<longrightarrow> enabled))
    \<and> client_ssl_params ck = sentinel_ssl_params sk"
proof -
  obtain en where en: "parse_ssl_enabled (scheme p) (parse_qs (query p)) = Inr en"
    and m: "parse_ssl_params (parse_qs (query p)) en = Inr (sentinel_ssl_params sk)"
    using parse_sentinel_parameters_fields(4) [OF assms] by blast
  have "sentinel_ssl_params sk ''ssl'' = (if en then Some (PyBool True) else None)
      \<and> (\<not> en \<longrightarrow> sentinel_ssl_params sk = Map.empty)
      \<and> (\<forall>k v. sentinel_ssl_params sk k = Some v \<longrightarrow> en)"
  proof (cases en)
    case True
    with m show ?thesis by (simp add: parse_ssl_params_enabled)
  next
    case False
    with m have "sentinel_ssl_params sk = Map.empty"
      using parse_ssl_params_disabled [of "parse_qs (query p)"] by (simp only: sum.inject)
    with False show ?thesis by simp
  qed
  with en parse_sentinel_parameters_fields(7) [OF assms] show ?thesis by blast
qed

text \<open>
  Claim C7 at a URL with security enabled by the query and at one with security disabled.
\<close>
theorem C7_security_invariant_witness:
  "parse_ssl_enabled ''redis+sentinel'' (parse_qs ''ssl=true&ssl_cert_reqs=required'') = Inr True
   \<and> [''ssl'' \<mapsto> PyBool True, ''ssl_cert_reqs'' \<mapsto> PyCert CERT_REQUIRED] ''ssl''
       = Some (PyBool True)
   \<and> parse_ssl_enabled ''redis+sentinel'' (parse_qs '''') = Inr False
   \<and> (\<exists>sk ck. parse_sentinel_parameters
         \<lparr>scheme = ''redis+sentinel'', netloc = ''h'', path = ''/mymaster'', params = '''',
          query = '''', fragment = ''''\<rparr> = Inr (sk, ck)
        \<and> sentinel_ssl_params sk = Map.empty \<and> client_ssl_params ck = Map.empty)"
proof -
  let ?p = "\<lparr>scheme = ''redis+sentinel'', netloc = ''h'', path = ''/g'', params = '''',
      query = ''ssl=true&ssl_cert_reqs=required'', fragment = ''''\<rparr>"
  let ?q = "\<lparr>scheme = ''redis+sentinel'', netloc = ''h'', path = ''/mymaster'', params = '''',
          query = '''', fragment = ''''\<rparr>"
  have on: "parse_ssl_enabled ''redis+sentinel'' (parse_qs ''ssl=true&ssl_cert_reqs=required'')
      = Inr True" by code_simp
  have off: "parse_ssl_enabled ''redis+sentinel'' (parse_qs '''') = Inr False" by code_simp
  from C7_security_invariant [OF ssl_cert_parameters] on
  have "[''ssl'' \<mapsto> PyBool True, ''ssl_cert_reqs'' \<mapsto> PyCert CERT_REQUIRED] ''ssl''
       = Some (PyBool True)" by simp
  moreover from C7_security_invariant [OF mymaster_parameters] off
  have "\<exists>sk ck. parse_sentinel_parameters ?q = Inr (sk, ck)
        \<and> sentinel_ssl_params sk = Map.empty \<and> client_ssl_params ck = Map.empty"
    by (simp add: mymaster_parameters)
  ultimately show ?thesis using on off by simp
qed

subsection \<open>C8\<close>



subsection \<open>C9\<close>

text \<open>
  Claim C9. When the configured URL has a discovery scheme and \<^verbatim>\<open>Sentinel\<close> is
  \<^verbatim>\<open>None\<close>, \<^verbatim>\<open>init_app\<close> raises ImportError without any call to the client
  library, and the stored client and the application (with its extension registry) are
  unchanged.
\<close>
theorem C9_sentinel_unavailable:
  assumes "configured_url st = redis_url"
    and "urlparse (bracket_ok env) redis_url = Inr p"
    and "scheme p \<in> set [''redis+sentinel'', ''rediss+sentinel'']"
    and "Sentinel env = None"
  shows "fst (init_app env st kwargs) = Inl ImportError
    \<and> calls (snd (init_app env st kwargs)) = calls st
    \<and> redis_client (self (snd (init_app env st kwargs))) = redis_client (self st)
    \<and> app (snd (init_app env st kwargs)) = app st"
proof -
  from assms have parsed: "urlparse (bracket_ok env) (configured_url st) = Inr p" by simp
  show ?thesis by (simp add: init_app_no_sentinel [OF parsed assms(3,4)])
qed

text \<open>Claim C9 at the URL of the repository's sentinel test.\<close>
theorem C9_sentinel_unavailable_witness:
  "fst (init_app env_without_sentinel
          (state_with_url ''redis+sentinel://localhost:26379/mymaster/0'') Map.empty)
     = Inl ImportError
   \<and> calls (snd (init_app env_without_sentinel
          (state_with_url ''redis+sentinel://localhost:26379/mymaster/0'') Map.empty)) = []
   \<and> redis_client (self (snd (init_app env_without_sentinel
          (state_with_url ''redis+sentinel://localhost:26379/mymaster/0'') Map.empty))) = None
   \<and> extensions (app (snd (init_app env_without_sentinel
          (state_with_url ''redis+sentinel://localhost:26379/mymaster/0'') Map.empty))) = None"
proof -
  let ?u = "''redis+sentinel://localhost:26379/mymaster/0''"
  let ?p = "\<lparr>scheme = ''redis+sentinel'', netloc = ''localhost:26379'',
      path = ''/mymaster/0'', params = '''', query = '''', fragment = ''''\<rparr>"
  have url: "configured_url (state_with_url ?u) = ?u" by (rule example_state_simps)
  have "urlparse any_host ?u = Inr ?p" by code_simp
  then have parsed: "urlparse (bracket_ok env_without_sentinel) ?u = Inr ?p"
    by (simp add: example_env_simps)
  have disc: "scheme ?p \<in> set [''redis+sentinel'', ''rediss+sentinel'']" by code_simp
  have none: "Sentinel env_without_sentinel = None" by (rule example_env_simps)
  from C9_sentinel_unavailable [OF url parsed disc none, of Map.empty]
  show ?thesis by (simp add: example_state_simps)
qed

subsection \<open>C10\<close>

text \<open>
  Claim C10. The credentials dictionary never holds an empty string: an empty user name
  or password gives the same dictionary as an absent one. The resolved parameters of every
  URL carry that dictionary, built from the user name and password of the URL, for
  \<^verbatim>\<open>Sentinel\<close> and for \<^verbatim>\<open>master_for\<close> alike.
\<close>
theorem C10_no_empty_credentials:
  "(\<forall>k v. parse_auth_params user pass k = Some v \<longrightarrow> v \<noteq> '''')
   \<and> parse_auth_params (Some '''') pass = parse_auth_params None pass
   \<and> parse_auth_params user (Some '''') = parse_auth_params user None
   \<and> (\<forall>sk ck. parse_sentinel_parameters p = Inr (sk, ck) \<longrightarrow>
        sentinel_auth_params sk = parse_auth_params (username p) (password p)
        \<and> client_auth_params ck = sentinel_auth_params sk
        \<and> (\<forall>k v. sentinel_auth_params sk k = Some v \<longrightarrow> v \<noteq> ''''))"
proof -
  have nonempty: "\<forall>k v. parse_auth_params u pw k = Some v \<longrightarrow> v \<noteq> ''''" for u pw
    using parse_auth_params_values by blast
  have "parse_auth_params (Some '''') pass = parse_auth_params None pass"
    and "parse_auth_params user (Some '''') = parse_auth_params user None"
    by (simp_all add: parse_auth_params_def)
  moreover have "sentinel_auth_params sk = parse_auth_params (username p) (password p)
        \<and> client_auth_params ck = sentinel_auth_params sk
        \<and> (\<forall>k v. sentinel_auth_params sk k = Some v \<longrightarrow> v \<noteq> '''')"
    if "parse_sentinel_parameters p = Inr (sk, ck)" for sk ck
    using parse_sentinel_parameters_fields(5,8) [OF that] nonempty by simp
  ultimately show ?thesis using nonempty by blast
qed

text \<open>Claim C10 at \<^verbatim>\<open>redis+sentinel://u:@host/g\<close>, whose password is empty.\<close>
theorem C10_no_empty_credentials_witness:
  "urlparse any_host ''redis+sentinel://u:@host/g''
     = Inr \<lparr>scheme = ''redis+sentinel'', netloc = ''u:@host'', path = ''/g'', params = '''',
             query = '''', fragment = ''''\<rparr>
   \<and> password \<lparr>scheme = ''redis+sentinel'', netloc = ''u:@host'', path = ''/g'',
                params = '''', query = '''', fragment = ''''\<rparr> = Some ''''
   \<and> parse_auth_params (Some ''u'') (Some '''') = parse_auth_params (Some ''u'') None
   \<and> parse_auth_params (Some ''u'') (Some '''') ''password'' = None
   \<and> parse_auth_params (Some ''u'') (Some '''') ''username'' = Some ''u''"
proof -
  let ?p = "\<lparr>scheme = ''redis+sentinel'', netloc = ''u:@host'', path = ''/g'', params = '''',
             query = '''', fragment = ''''\<rparr>"
  have parsed: "urlparse any_host ''redis+sentinel://u:@host/g'' = Inr ?p" by code_simp
  have user: "username ?p = Some ''u''" and pw: "password ?p = Some ''''" by code_simp+
  from C10_no_empty_credentials [of "Some ''u''" "Some ''''" ?p] empty_password_parameters
    user pw
  have absent: "parse_auth_params (Some ''u'') (Some '''') = parse_auth_params (Some ''u'') None"
    and resolved: "parse_auth_params (Some ''u'') (Some '''') = [''username'' \<mapsto> ''u'']"
    by simp_all
  have "parse_auth_params (Some ''u'') (Some '''') ''password'' = None"
    and "parse_auth_params (Some ''u'') (Some '''') ''username'' = Some ''u''"
    by (simp_all only: resolved) simp_all
  with parsed pw absent show ?thesis by simp
qed

end
